theory Spec2Isabelle
  imports Complex_Main
begin

section \<open>Data model of the evaluation translator\<close>

text \<open>
  The embedding follows \<^verbatim>\<open>qualitative_evaluation_translator.py\<close> and
  \<^verbatim>\<open>polytope_visualizer.py\<close>. A Python float is the \<^typ>\<open>real\<close> number it
  denotes, a numpy vector is a \<^typ>\<open>real list\<close>, a numpy matrix is the list of its
  rows. The translator only stores values, negates them and writes the constants
  \<^verbatim>\<open>1.0\<close>, \<^verbatim>\<open>-1.0\<close>, \<^verbatim>\<open>0.0\<close> and \<^verbatim>\<open>-0.01\<close> (the last one written here
  as the fraction \<open>-1/100\<close> of the literal); the arithmetic of the vertex computation,
  which rounds, is a parameter of the model (see the section on the vertex enumeration). Every exception the code can raise is a value of \<open>error\<close>.
\<close>

datatype EvaluationType = COMPARISON | RANGE | RANKING | PREFERENCE | THRESHOLD

datatype ComparisonOperator =
  GREATER | LESS | GREATER_EQUAL | LESS_EQUAL | EQUAL | NOT_EQUAL

record QualitativeEvaluation =
  evaluator_id :: string
  evaluation_type :: EvaluationType
  eval_projects :: "string list"
  operator :: "ComparisonOperator option"
  eval_values :: "real list option"
  confidence :: real
  eval_criteria :: "string option"
  timestamp :: "string option"
  metadata :: "(string \<times> string) list option"

record LinearConstraint =
  coefficients :: "real list"
  bound :: real
  is_equality :: bool
  constraint_id :: string
  source_evaluation :: "QualitativeEvaluation option"

datatype error =
  ValueError string | KeyError string | IndexError | LinAlgError

text \<open>
  The module-level logger: one constructor per message the translator writes, carrying
  the values formatted into the message.
\<close>

datatype log_record =
  Info_initialized nat nat
  | Info_added string EvaluationType
  | Warning_unsupported EvaluationType
  | Error_processing string error
  | Info_generated nat nat

record QualitativeEvaluationTranslator =
  projects :: "string list"
  criteria :: "string list"
  n_projects :: nat
  n_criteria :: nat
  project_index :: "string \<rightharpoonup> nat"
  criteria_index :: "string \<rightharpoonup> nat"
  evaluations :: "QualitativeEvaluation list"
  constraints :: "LinearConstraint list"

text \<open>
  \<^verbatim>\<open>{x: i for i, x in enumerate(xs)}\<close>: a later occurrence of a key overwrites an
  earlier one.
\<close>

fun index_from :: "nat \<Rightarrow> string list \<Rightarrow> (string \<rightharpoonup> nat) \<Rightarrow> (string \<rightharpoonup> nat)" where
  "index_from i [] m = m"
| "index_from i (x # xs) m = index_from (Suc i) xs (m(x \<mapsto> i))"

definition index_dict :: "string list \<Rightarrow> (string \<rightharpoonup> nat)" where
  "index_dict xs = index_from 0 xs Map.empty"

text \<open>
  The constructor. \<^verbatim>\<open>criteria or ['value']\<close> replaces both \<^verbatim>\<open>None\<close> and the
  empty list by the single default criterion. The second component is the log output.
\<close>

definition translator_init ::
  "string list \<Rightarrow> string list option \<Rightarrow> QualitativeEvaluationTranslator \<times> log_record list" where
  "translator_init ps crit =
     (let cs = (case crit of None \<Rightarrow> [''value''] | Some [] \<Rightarrow> [''value''] | Some c \<Rightarrow> c)
      in (\<lparr> projects = ps, criteria = cs,
             n_projects = length ps, n_criteria = length cs,
             project_index = index_dict ps, criteria_index = index_dict cs,
             evaluations = [], constraints = [] \<rparr>,
          [Info_initialized (length ps) (length cs)]))"

definition add_evaluation ::
  "QualitativeEvaluationTranslator \<Rightarrow> QualitativeEvaluation
     \<Rightarrow> QualitativeEvaluationTranslator \<times> log_record list" where
  "add_evaluation self evaluation =
     (self\<lparr>evaluations := evaluations self @ [evaluation]\<rparr>,
      [Info_added (evaluator_id evaluation) (evaluation_type evaluation)])"

section \<open>Translating one evaluation\<close>

text \<open>
  \<^verbatim>\<open>coeffs[pos] = v\<close> on a numpy vector: an index beyond the end raises
  \<^verbatim>\<open>IndexError\<close> (positions are never negative here).
\<close>

definition setitem :: "real list \<Rightarrow> nat \<Rightarrow> real \<Rightarrow> error + real list" where
  "setitem xs i v = (if i < length xs then Inr (xs[i := v]) else Inl IndexError)"

text \<open>A \<^verbatim>\<open>for\<close> loop whose body may raise: the first exception leaves the loop.\<close>

fun for_loop :: "('s \<Rightarrow> 'a \<Rightarrow> error + 's) \<Rightarrow> 'a list \<Rightarrow> 's \<Rightarrow> error + 's" where
  "for_loop body [] s = Inr s"
| "for_loop body (x # xs) s =
     (case body s x of Inl e \<Rightarrow> Inl e | Inr s' \<Rightarrow> for_loop body xs s')"

text \<open>\<^verbatim>\<open>self.project_index[proj]\<close> raises \<^verbatim>\<open>KeyError\<close> on a missing key.\<close>

definition lookup_project :: "QualitativeEvaluationTranslator \<Rightarrow> string \<Rightarrow> error + nat" where
  "lookup_project self proj =
     (case project_index self proj of None \<Rightarrow> Inl (KeyError proj) | Some i \<Rightarrow> Inr i)"

text \<open>
  The coefficient vector with \<open>pos_a\<close> set to \<open>1.0\<close> and then \<open>pos_b\<close> set to
  \<open>-1.0\<close>, the two assignments of every branch of \<^verbatim>\<open>parse_comparison_evaluation\<close>.
\<close>

definition comparison_coeffs ::
  "QualitativeEvaluationTranslator \<Rightarrow> nat \<Rightarrow> nat \<Rightarrow> error + real list" where
  "comparison_coeffs self pos_a pos_b =
     (case setitem (replicate (n_projects self * n_criteria self) 0) pos_a 1 of
        Inl e \<Rightarrow> Inl e
      | Inr coeffs \<Rightarrow> setitem coeffs pos_b (- 1))"

definition comparison_body ::
  "QualitativeEvaluationTranslator \<Rightarrow> QualitativeEvaluation \<Rightarrow> string \<Rightarrow> string \<Rightarrow> nat \<Rightarrow> nat
     \<Rightarrow> LinearConstraint list \<Rightarrow> nat \<times> string \<Rightarrow> error + LinearConstraint list" where
  "comparison_body self evaluation proj_a proj_b idx_a idx_b constraints_acc =
     (\<lambda>(crit_idx, criterion).
        let pos_a = idx_a * n_criteria self + crit_idx;
            pos_b = idx_b * n_criteria self + crit_idx
        in if operator evaluation = Some GREATER then
             (case comparison_coeffs self pos_a pos_b of
                Inl e \<Rightarrow> Inl e
              | Inr coeffs \<Rightarrow>
                  Inr (constraints_acc @
                    [\<lparr> coefficients = coeffs, bound = - (1 / 100), is_equality = False,
                       constraint_id = ''comp_'' @ proj_a @ ''_'' @ proj_b @ ''_'' @ criterion,
                       source_evaluation = Some evaluation \<rparr>]))
           else if operator evaluation = Some LESS then
             (case comparison_coeffs self pos_a pos_b of
                Inl e \<Rightarrow> Inl e
              | Inr coeffs \<Rightarrow>
                  Inr (constraints_acc @
                    [\<lparr> coefficients = coeffs, bound = - (1 / 100), is_equality = False,
                       constraint_id = ''comp_'' @ proj_a @ ''_'' @ proj_b @ ''_'' @ criterion,
                       source_evaluation = Some evaluation \<rparr>]))
           else if operator evaluation = Some EQUAL then
             (case comparison_coeffs self pos_a pos_b of
                Inl e \<Rightarrow> Inl e
              | Inr coeffs \<Rightarrow>
                  Inr (constraints_acc @
                    [\<lparr> coefficients = coeffs, bound = 0, is_equality = True,
                       constraint_id = ''comp_'' @ proj_a @ ''_'' @ proj_b @ ''_'' @ criterion,
                       source_evaluation = Some evaluation \<rparr>]))
           else Inr constraints_acc)"

definition parse_comparison_evaluation ::
  "QualitativeEvaluationTranslator \<Rightarrow> QualitativeEvaluation \<Rightarrow> error + LinearConstraint list" where
  "parse_comparison_evaluation self evaluation =
     (case eval_projects evaluation of
        [proj_a, proj_b] \<Rightarrow>
          (case lookup_project self proj_a of
             Inl e \<Rightarrow> Inl e
           | Inr idx_a \<Rightarrow>
               (case lookup_project self proj_b of
                  Inl e \<Rightarrow> Inl e
                | Inr idx_b \<Rightarrow>
                    for_loop (comparison_body self evaluation proj_a proj_b idx_a idx_b)
                      (List.enumerate 0 (criteria self)) []))
      | _ \<Rightarrow> Inl (ValueError ''Comparison evaluation must involve exactly 2 projects''))"

text \<open>
  \<^verbatim>\<open>parse_range_evaluation\<close>. One vector is updated twice in each iteration and copied
  into the two constraints.
\<close>

definition range_body ::
  "QualitativeEvaluationTranslator \<Rightarrow> QualitativeEvaluation \<Rightarrow> string \<Rightarrow> nat \<Rightarrow> real \<Rightarrow> real
     \<Rightarrow> LinearConstraint list \<Rightarrow> nat \<times> string \<Rightarrow> error + LinearConstraint list" where
  "range_body self evaluation proj idx min_val max_val constraints_acc =
     (\<lambda>(crit_idx, criterion).
        let pos = idx * n_criteria self + crit_idx
        in case setitem (replicate (n_projects self * n_criteria self) 0) pos 1 of
             Inl e \<Rightarrow> Inl e
           | Inr coeffs_lower \<Rightarrow>
               (case setitem coeffs_lower pos (- 1) of
                  Inl e \<Rightarrow> Inl e
                | Inr coeffs_upper \<Rightarrow>
                    Inr (constraints_acc @
                      [\<lparr> coefficients = coeffs_lower, bound = min_val, is_equality = False,
                         constraint_id = ''range_lower_'' @ proj @ ''_'' @ criterion,
                         source_evaluation = Some evaluation \<rparr>,
                       \<lparr> coefficients = coeffs_upper, bound = - max_val, is_equality = False,
                         constraint_id = ''range_upper_'' @ proj @ ''_'' @ criterion,
                         source_evaluation = Some evaluation \<rparr>])))"

definition parse_range_evaluation ::
  "QualitativeEvaluationTranslator \<Rightarrow> QualitativeEvaluation \<Rightarrow> error + LinearConstraint list" where
  "parse_range_evaluation self evaluation =
     (case eval_projects evaluation of
        [proj] \<Rightarrow>
          (case eval_values evaluation of
             Some [min_val, max_val] \<Rightarrow>
               (case lookup_project self proj of
                  Inl e \<Rightarrow> Inl e
                | Inr idx \<Rightarrow>
                    for_loop (range_body self evaluation proj idx min_val max_val)
                      (List.enumerate 0 (criteria self)) [])
           | _ \<Rightarrow> Inl (ValueError ''Range evaluation must specify exactly 2 values (min, max)''))
      | _ \<Rightarrow> Inl (ValueError ''Range evaluation must involve exactly 1 project''))"

text \<open>
  \<^verbatim>\<open>parse_ranking_evaluation\<close>: the comparison built for the pair at positions
  \<open>i\<close>, \<open>i + 1\<close> (the fields not passed to the constructor take their defaults), and
  the loop over \<^verbatim>\<open>range(len(projects) - 1)\<close>.
\<close>

definition comp_eval :: "QualitativeEvaluation \<Rightarrow> string \<Rightarrow> string \<Rightarrow> QualitativeEvaluation" where
  "comp_eval evaluation proj_higher proj_lower =
     \<lparr> evaluator_id = evaluator_id evaluation, evaluation_type = COMPARISON,
       eval_projects = [proj_higher, proj_lower], operator = Some GREATER,
       eval_values = None, confidence = confidence evaluation,
       eval_criteria = eval_criteria evaluation, timestamp = None, metadata = None \<rparr>"

definition ranking_body ::
  "QualitativeEvaluationTranslator \<Rightarrow> QualitativeEvaluation
     \<Rightarrow> LinearConstraint list \<Rightarrow> nat \<Rightarrow> error + LinearConstraint list" where
  "ranking_body self evaluation constraints_acc i =
     (let ps = eval_projects evaluation
      in if Suc i < length ps then
           (case parse_comparison_evaluation self (comp_eval evaluation (ps ! i) (ps ! Suc i)) of
              Inl e \<Rightarrow> Inl e
            | Inr comp_constraints \<Rightarrow> Inr (constraints_acc @ comp_constraints))
         else Inl IndexError)"

definition parse_ranking_evaluation ::
  "QualitativeEvaluationTranslator \<Rightarrow> QualitativeEvaluation \<Rightarrow> error + LinearConstraint list" where
  "parse_ranking_evaluation self evaluation =
     (if length (eval_projects evaluation) < 2 then
        Inl (ValueError ''Ranking evaluation must involve at least 2 projects'')
      else for_loop (ranking_body self evaluation)
             [0 ..< length (eval_projects evaluation) - 1] [])"

definition threshold_body ::
  "QualitativeEvaluationTranslator \<Rightarrow> QualitativeEvaluation \<Rightarrow> string \<Rightarrow> nat \<Rightarrow> real
     \<Rightarrow> LinearConstraint list \<Rightarrow> nat \<times> string \<Rightarrow> error + LinearConstraint list" where
  "threshold_body self evaluation proj idx threshold constraints_acc =
     (\<lambda>(crit_idx, criterion).
        let pos = idx * n_criteria self + crit_idx
        in if operator evaluation = Some GREATER_EQUAL then
             (case setitem (replicate (n_projects self * n_criteria self) 0) pos 1 of
                Inl e \<Rightarrow> Inl e
              | Inr coeffs \<Rightarrow>
                  Inr (constraints_acc @
                    [\<lparr> coefficients = coeffs, bound = threshold, is_equality = False,
                       constraint_id = ''threshold_'' @ proj @ ''_'' @ criterion,
                       source_evaluation = Some evaluation \<rparr>]))
           else if operator evaluation = Some LESS_EQUAL then
             (case setitem (replicate (n_projects self * n_criteria self) 0) pos (- 1) of
                Inl e \<Rightarrow> Inl e
              | Inr coeffs \<Rightarrow>
                  Inr (constraints_acc @
                    [\<lparr> coefficients = coeffs, bound = - threshold, is_equality = False,
                       constraint_id = ''threshold_'' @ proj @ ''_'' @ criterion,
                       source_evaluation = Some evaluation \<rparr>]))
           else Inr constraints_acc)"

definition parse_threshold_evaluation ::
  "QualitativeEvaluationTranslator \<Rightarrow> QualitativeEvaluation \<Rightarrow> error + LinearConstraint list" where
  "parse_threshold_evaluation self evaluation =
     (case eval_projects evaluation of
        [proj] \<Rightarrow>
          (case eval_values evaluation of
             Some [threshold] \<Rightarrow>
               (case lookup_project self proj of
                  Inl e \<Rightarrow> Inl e
                | Inr idx \<Rightarrow>
                    for_loop (threshold_body self evaluation proj idx threshold)
                      (List.enumerate 0 (criteria self)) [])
           | _ \<Rightarrow> Inl (ValueError ''Threshold evaluation must specify exactly 1 threshold value''))
      | _ \<Rightarrow> Inl (ValueError ''Threshold evaluation must involve exactly 1 project''))"

section \<open>Translating the stored batch\<close>

text \<open>
  The \<^verbatim>\<open>try\<close> block of \<^verbatim>\<open>translate_evaluations\<close>: a parser that returns extends
  \<open>all_constraints\<close>; a parser that raises is caught by \<^verbatim>\<open>except Exception\<close>, which
  writes one error line (evaluator id and exception) to the log and continues.
\<close>

definition extend_or_log ::
  "LinearConstraint list \<times> log_record list \<Rightarrow> QualitativeEvaluation
     \<Rightarrow> error + LinearConstraint list \<Rightarrow> LinearConstraint list \<times> log_record list" where
  "extend_or_log state evaluation r =
     (case r of
        Inr cs \<Rightarrow> (fst state @ cs, snd state)
      | Inl e \<Rightarrow> (fst state, snd state @ [Error_processing (evaluator_id evaluation) e]))"

definition translate_body ::
  "QualitativeEvaluationTranslator \<Rightarrow> LinearConstraint list \<times> log_record list
     \<Rightarrow> QualitativeEvaluation \<Rightarrow> LinearConstraint list \<times> log_record list" where
  "translate_body self state evaluation =
     (if evaluation_type evaluation = COMPARISON then
        extend_or_log state evaluation (parse_comparison_evaluation self evaluation)
      else if evaluation_type evaluation = RANGE then
        extend_or_log state evaluation (parse_range_evaluation self evaluation)
      else if evaluation_type evaluation = RANKING then
        extend_or_log state evaluation (parse_ranking_evaluation self evaluation)
      else if evaluation_type evaluation = THRESHOLD then
        extend_or_log state evaluation (parse_threshold_evaluation self evaluation)
      else (fst state, snd state @ [Warning_unsupported (evaluation_type evaluation)]))"

fun translate_loop ::
  "QualitativeEvaluationTranslator \<Rightarrow> QualitativeEvaluation list
     \<Rightarrow> LinearConstraint list \<times> log_record list \<Rightarrow> LinearConstraint list \<times> log_record list" where
  "translate_loop self [] state = state"
| "translate_loop self (evaluation # rest) state =
     translate_loop self rest (translate_body self state evaluation)"

text \<open>
  \<^verbatim>\<open>translate_evaluations\<close> returns \<open>all_constraints\<close>; the model returns with it the
  translator after the assignment to \<^verbatim>\<open>self.constraints\<close> and the lines written to
  the log.
\<close>

definition translate_evaluations ::
  "QualitativeEvaluationTranslator
     \<Rightarrow> LinearConstraint list \<times> QualitativeEvaluationTranslator \<times> log_record list" where
  "translate_evaluations self =
     (let (all_constraints, lines) = translate_loop self (evaluations self) ([], [])
      in (all_constraints, self\<lparr>constraints := all_constraints\<rparr>,
          lines @ [Info_generated (length all_constraints) (length (evaluations self))]))"

section \<open>Constraint matrices\<close>

text \<open>
  \<^verbatim>\<open>np.vstack\<close> of a non-empty list of vectors, and \<^verbatim>\<open>np.array\<close> of a non-empty
  list of vectors: rows of different lengths raise \<^verbatim>\<open>ValueError\<close>.
\<close>

definition vstack :: "real list list \<Rightarrow> error + real list list" where
  "vstack rows =
     (if list_all (\<lambda>r. length r = length (hd rows)) rows then Inr rows
      else Inl (ValueError ''all the input array dimensions must match exactly''))"

definition np_array :: "real list list \<Rightarrow> error + real list list" where
  "np_array rows =
     (if list_all (\<lambda>r. length r = length (hd rows)) rows then Inr rows
      else Inl (ValueError ''inhomogeneous shape''))"

text \<open>
  \<^verbatim>\<open>get_constraint_matrices\<close>: the quadruple \<open>(A_ineq, b_ineq, A_eq, b_eq)\<close>, the
  translator (translated first when it holds no constraints) and the log lines written.
  An empty partition gives the matrix with zero rows.
\<close>

definition get_constraint_matrices ::
  "QualitativeEvaluationTranslator
     \<Rightarrow> error + ((real list list \<times> real list \<times> real list list \<times> real list)
                 \<times> QualitativeEvaluationTranslator \<times> log_record list)" where
  "get_constraint_matrices self =
     (let (self1, lines) =
            (if constraints self = [] then snd (translate_evaluations self) else (self, []));
          ineq_constraints = filter (\<lambda>c. \<not> is_equality c) (constraints self1);
          eq_constraints = filter (\<lambda>c. is_equality c) (constraints self1)
      in case (if ineq_constraints \<noteq> [] then vstack (map coefficients ineq_constraints)
               else Inr []) of
           Inl e \<Rightarrow> Inl e
         | Inr A_ineq_m \<Rightarrow>
             (case (if eq_constraints \<noteq> [] then vstack (map coefficients eq_constraints)
                    else Inr []) of
                Inl e \<Rightarrow> Inl e
              | Inr A_eq_m \<Rightarrow>
                  Inr ((A_ineq_m, map bound ineq_constraints, A_eq_m, map bound eq_constraints),
                       self1, lines)))"

section \<open>The polytope visualizer\<close>

text \<open>
  The attributes of \<^verbatim>\<open>PolytopeVisualizer\<close>. \<open>A_eq\<close> is an option because
  \<^verbatim>\<open>compute_vertices\<close> tests it against \<^verbatim>\<open>None\<close>; \<open>priv_vertices\<close>,
  \<open>priv_volume\<close> and \<open>priv_centroid\<close> are the caches \<^verbatim>\<open>_vertices\<close>,
  \<^verbatim>\<open>_volume\<close> and \<^verbatim>\<open>_centroid\<close>.
\<close>

record PolytopeVisualizer =
  translator :: QualitativeEvaluationTranslator
  vis_constraints :: "LinearConstraint list"
  A_ineq :: "real list list"
  b_ineq :: "real list"
  A_eq :: "real list list option"
  b_eq :: "real list"
  dimension_names :: "string list"
  n_dimensions :: nat
  priv_vertices :: "real list list option"
  priv_volume :: "real option"
  priv_centroid :: "real list option"

definition visualizer_init :: "QualitativeEvaluationTranslator \<Rightarrow> error + PolytopeVisualizer" where
  "visualizer_init translator0 =
     (let translator1 =
            (if constraints translator0 = [] then fst (snd (translate_evaluations translator0))
             else translator0)
      in case get_constraint_matrices translator1 of
           Inl e \<Rightarrow> Inl e
         | Inr ((A_ineq_m, b_ineq_v, A_eq_m, b_eq_v), translator2, lines) \<Rightarrow>
             (let names = concat (map (\<lambda>project.
                            map (\<lambda>criterion. project @ ''_'' @ criterion) (criteria translator2))
                          (projects translator2))
              in Inr \<lparr> translator = translator2, vis_constraints = constraints translator1,
                       A_ineq = A_ineq_m, b_ineq = b_ineq_v,
                       A_eq = Some A_eq_m, b_eq = b_eq_v,
                       dimension_names = names, n_dimensions = length names,
                       priv_vertices = None, priv_volume = None, priv_centroid = None \<rparr>))"

section \<open>Vertex enumeration\<close>

text \<open>
  What numpy computes in float64 is a parameter of the model, so that nothing is assumed
  about rounding: the routines \<^verbatim>\<open>np.linalg.det\<close> and \<^verbatim>\<open>np.linalg.solve\<close>
  (\<open>None\<close> is a raised exception), the entries of the product \<^verbatim>\<open>A @ v\<close>
  (\<open>fl_matvec A v i\<close> is entry \<open>i\<close>), the rounded sum, difference and product of two floats
  (\<open>fl_add\<close>, \<open>fl_sub\<close>, \<open>fl_mul\<close>) and the float a decimal literal denotes
  (\<open>fl_lit\<close>). Comparisons, negation and the absolute value of floats are exact. The
  optional library routine \<^verbatim>\<open>pypoman.compute_polytope_vertices\<close> is a parameter too;
  it is \<open>None\<close> when the import failed (\<^verbatim>\<open>PYPOMAN_AVAILABLE = False\<close>).
\<close>

record linalg =
  linalg_det :: "real list list \<Rightarrow> real option"
  linalg_solve :: "real list list \<Rightarrow> real list \<Rightarrow> real list option"
  fl_matvec :: "real list list \<Rightarrow> real list \<Rightarrow> nat \<Rightarrow> real"
  fl_add :: "real \<Rightarrow> real \<Rightarrow> real"
  fl_sub :: "real \<Rightarrow> real \<Rightarrow> real"
  fl_mul :: "real \<Rightarrow> real \<Rightarrow> real"
  fl_lit :: "real \<Rightarrow> real"

type_synonym pypoman = "(real list list \<Rightarrow> real list \<Rightarrow> real list list option) option"

text \<open>\<^verbatim>\<open>itertools.combinations(xs, r)\<close>, in the order the library yields them.\<close>

fun combinations :: "'a list \<Rightarrow> nat \<Rightarrow> 'a list list" where
  "combinations xs 0 = [[]]"
| "combinations [] (Suc r) = []"
| "combinations (x # xs) (Suc r) =
     map ((#) x) (combinations xs r) @ combinations xs (Suc r)"

text \<open>\<^verbatim>\<open>a[list(indices)]\<close>: an index beyond the rows of \<open>a\<close> raises.\<close>

definition take_rows :: "'a list \<Rightarrow> nat list \<Rightarrow> error + 'a list" where
  "take_rows xs idxs =
     (if list_all (\<lambda>i. i < length xs) idxs then Inr (map ((!) xs) idxs) else Inl IndexError)"

text \<open>The exact product of a row with a vector, \<open>\<Sum>\<^sub>k r\<^sub>k * v\<^sub>k\<close>.\<close>

definition dot :: "real list \<Rightarrow> real list \<Rightarrow> real" where
  "dot r v = sum_list (map2 (*) r v)"

text \<open>
  \<^verbatim>\<open>A @ v\<close> as numpy computes it: the column count of \<open>A\<close> must be the length
  of \<open>v\<close>; the result has one entry for each row.
\<close>

definition matvec :: "linalg \<Rightarrow> real list list \<Rightarrow> real list \<Rightarrow> error + real list" where
  "matvec la A v =
     (if list_all (\<lambda>r. length r = length v) A
      then Inr (map (fl_matvec la A v) [0 ..< length A])
      else Inl (ValueError ''matmul: dimension mismatch''))"

text \<open>
  The right-hand side \<^verbatim>\<open>b + 1e-10\<close> of the slack test for one bound: a rounded sum
  with the float of the literal.
\<close>

definition slack_bound :: "linalg \<Rightarrow> real \<Rightarrow> real" where
  "slack_bound la y = fl_add la y (fl_lit la (1 / 10 ^ 10))"

text \<open>
  \<^verbatim>\<open>np.all(A_ineq @ vertex <= b_ineq + 1e-10)\<close>, with numpy's broadcasting of a
  one-element operand; other length mismatches raise.
\<close>

definition satisfies_all ::
  "linalg \<Rightarrow> real list list \<Rightarrow> real list \<Rightarrow> real list \<Rightarrow> error + bool" where
  "satisfies_all la A b v =
     (case matvec la A v of
        Inl e \<Rightarrow> Inl e
      | Inr lhs \<Rightarrow>
          if length lhs = length b then Inr (list_all2 (\<lambda>x y. x \<le> slack_bound la y) lhs b)
          else if length b = 1 then Inr (list_all (\<lambda>x. x \<le> slack_bound la (hd b)) lhs)
          else if length lhs = 1 then Inr (list_all (\<lambda>y. hd lhs \<le> slack_bound la y) b)
          else Inl (ValueError ''operands could not be broadcast together''))"

text \<open>
  \<^verbatim>\<open>all(bounds[i][0] <= vertex[i] <= bounds[i][1] for i in range(n))\<close>: stops at the
  first coordinate out of its interval; a missing entry of \<open>bounds\<close> or \<open>vertex\<close>
  raises \<^verbatim>\<open>IndexError\<close>.
\<close>

fun within_bounds :: "(real \<times> real) list \<Rightarrow> real list \<Rightarrow> nat list \<Rightarrow> error + bool" where
  "within_bounds bounds vertex [] = Inr True"
| "within_bounds bounds vertex (i # rest) =
     (if i < length bounds \<and> i < length vertex then
        (if fst (bounds ! i) \<le> vertex ! i \<and> vertex ! i \<le> snd (bounds ! i)
         then within_bounds bounds vertex rest else Inr False)
      else Inl IndexError)"

text \<open>
  One iteration of the enumeration loop. \<^verbatim>\<open>LinAlgError\<close> and \<^verbatim>\<open>ValueError\<close>
  are caught and the loop continues; \<^verbatim>\<open>IndexError\<close> is not caught.
\<close>

definition intersection_body ::
  "linalg \<Rightarrow> PolytopeVisualizer \<Rightarrow> (real \<times> real) list
     \<Rightarrow> real list list \<Rightarrow> nat list \<Rightarrow> error + real list list" where
  "intersection_body la self bounds vertices constraint_indices =
     (case take_rows (A_ineq self) constraint_indices of
        Inl e \<Rightarrow> Inl e
      | Inr A_subset \<Rightarrow>
          (case take_rows (b_ineq self) constraint_indices of
             Inl e \<Rightarrow> Inl e
           | Inr b_subset \<Rightarrow>
               (case linalg_det la A_subset of
                  None \<Rightarrow> Inr vertices
                | Some d \<Rightarrow>
                    if d \<noteq> 0 then
                      (case linalg_solve la A_subset b_subset of
                         None \<Rightarrow> Inr vertices
                       | Some vertex \<Rightarrow>
                           (case satisfies_all la (A_ineq self) (b_ineq self) vertex of
                              Inl e \<Rightarrow> Inr vertices
                            | Inr False \<Rightarrow> Inr vertices
                            | Inr True \<Rightarrow>
                                (case within_bounds bounds vertex [0 ..< n_dimensions self] of
                                   Inl e \<Rightarrow> Inl e
                                 | Inr False \<Rightarrow> Inr vertices
                                 | Inr True \<Rightarrow> Inr (vertices @ [vertex]))))
                    else Inr vertices)))"

text \<open>
  \<^verbatim>\<open>np.allclose(a, b, atol=1e-8)\<close> on two rows of one array: the relative tolerance
  keeps its default \<^verbatim>\<open>rtol=1e-5\<close>, and numpy evaluates
  \<^verbatim>\<open>abs(a - b) <= atol + rtol * abs(b)\<close> for every coordinate, rounding the
  difference, the product and the sum. The rows compared are finite (they passed the
  tests of the enumeration loop).
\<close>

definition isclose :: "linalg \<Rightarrow> real \<Rightarrow> real \<Rightarrow> bool" where
  "isclose la x y \<longleftrightarrow>
     \<bar>fl_sub la x y\<bar> \<le>
       fl_add la (fl_lit la (1 / 10 ^ 8)) (fl_mul la (fl_lit la (1 / 10 ^ 5)) \<bar>y\<bar>)"

definition allclose :: "linalg \<Rightarrow> real list \<Rightarrow> real list \<Rightarrow> bool" where
  "allclose la a b = list_all2 (isclose la) a b"

fun remove_duplicates :: "linalg \<Rightarrow> real list list \<Rightarrow> real list list \<Rightarrow> real list list" where
  "remove_duplicates la [] unique_vertices = unique_vertices"
| "remove_duplicates la (vertex # rest) unique_vertices =
     (if list_ex (\<lambda>existing. allclose la vertex existing) unique_vertices
      then remove_duplicates la rest unique_vertices
      else remove_duplicates la rest (unique_vertices @ [vertex]))"

text \<open>
  The fallback of \<^verbatim>\<open>compute_vertices\<close>: every combination of \<open>n_dimensions\<close> rows
  of the inequality system, then the removal of duplicates; the result is stored in the
  cache and returned.
\<close>

definition default_bounds :: "PolytopeVisualizer \<Rightarrow> (real \<times> real) list option \<Rightarrow> (real \<times> real) list" where
  "default_bounds self bounds =
     (case bounds of None \<Rightarrow> replicate (n_dimensions self) (- 10, 10) | Some b \<Rightarrow> b)"

definition enumerate_intersections ::
  "linalg \<Rightarrow> PolytopeVisualizer \<Rightarrow> (real \<times> real) list option
     \<Rightarrow> error + real list list \<times> PolytopeVisualizer" where
  "enumerate_intersections la self bounds =
     (let n_constraints = length (b_ineq self)
      in case for_loop (intersection_body la self (default_bounds self bounds))
                (combinations [0 ..< n_constraints] (n_dimensions self)) [] of
           Inl e \<Rightarrow> Inl e
         | Inr vertices \<Rightarrow>
             if vertices \<noteq> [] then
               (case np_array vertices of
                  Inl e \<Rightarrow> Inl e
                | Inr arr \<Rightarrow>
                    (let unique_vertices = remove_duplicates la arr []
                     in Inr (unique_vertices, self\<lparr>priv_vertices := Some unique_vertices\<rparr>)))
             else Inr ([], self\<lparr>priv_vertices := Some []\<rparr>))"

definition compute_vertices ::
  "linalg \<Rightarrow> pypoman \<Rightarrow> PolytopeVisualizer \<Rightarrow> (real \<times> real) list option
     \<Rightarrow> error + real list list \<times> PolytopeVisualizer" where
  "compute_vertices la PYPOMAN self bounds =
     (case priv_vertices self of
        Some cached \<Rightarrow> Inr (cached, self)
      | None \<Rightarrow>
          if PYPOMAN \<noteq> None \<and> A_eq self = None then
            (case the PYPOMAN (A_ineq self) (b_ineq self) of
               Some vertices \<Rightarrow> Inr (vertices, self\<lparr>priv_vertices := Some vertices\<rparr>)
             | None \<Rightarrow> enumerate_intersections la self bounds)
          else enumerate_intersections la self bounds)"

section \<open>Exact linear algebra\<close>

text \<open>
  A reference instance of the numpy parameters in exact arithmetic: the determinant by
  expansion along the first row, the solution by Cramer's rule, matrix products, sums,
  differences and products without rounding, literals at their decimal value. A matrix that is not
  square, a right-hand side of the wrong length and a singular matrix raise. It is used
  to run the model on concrete systems whose numbers float64 handles in the same way.
\<close>

definition drop_col :: "nat \<Rightarrow> real list \<Rightarrow> real list" where
  "drop_col j r = take j r @ drop (Suc j) r"

function laplace :: "real list list \<Rightarrow> real" where
  "laplace [] = 1"
| "laplace (r # rs) =
     sum_list (map (\<lambda>j. (- 1) ^ j * r ! j * laplace (map (drop_col j) rs)) [0 ..< length r])"
  by pat_completeness auto
termination
  by (relation "measure length") auto

definition exact_det :: "real list list \<Rightarrow> real option" where
  "exact_det A =
     (if list_all (\<lambda>r. length r = length A) A then Some (laplace A) else None)"

definition replace_col :: "nat \<Rightarrow> real list \<Rightarrow> real list list \<Rightarrow> real list list" where
  "replace_col j b A = map2 (\<lambda>r y. r[j := y]) A b"

definition exact_solve :: "real list list \<Rightarrow> real list \<Rightarrow> real list option" where
  "exact_solve A b =
     (if list_all (\<lambda>r. length r = length A) A \<and> length b = length A \<and> laplace A \<noteq> 0
      then Some (map (\<lambda>j. laplace (replace_col j b A) / laplace A) [0 ..< length A])
      else None)"

definition exact_linalg :: linalg where
  "exact_linalg =
     \<lparr> linalg_det = exact_det, linalg_solve = exact_solve,
       fl_matvec = (\<lambda>A v i. dot (A ! i) v),
       fl_add = (\<lambda>x y. x + y), fl_sub = (\<lambda>x y. x - y), fl_mul = (\<lambda>x y. x * y),
       fl_lit = (\<lambda>x. x) \<rparr>"

section \<open>Invariant, characterisations and concrete systems\<close>

text \<open>
  What the constructor establishes and no method changes: the two counts are the lengths
  of the two lists and \<open>project_index\<close> is the index of \<open>projects\<close>.
\<close>

definition translator_inv :: "QualitativeEvaluationTranslator \<Rightarrow> bool" where
  "translator_inv self \<longleftrightarrow>
     n_projects self = length (projects self) \<and>
     n_criteria self = length (criteria self) \<and>
     project_index self = index_dict (projects self)"

text \<open>
  The constraint a comparison with operator \<open>>\<close>, \<open><\<close> or \<open>=\<close> emits for the
  criterion at position \<open>crit_idx\<close>, written out.
\<close>

definition comparison_row ::
  "QualitativeEvaluationTranslator \<Rightarrow> QualitativeEvaluation \<Rightarrow> string \<Rightarrow> string \<Rightarrow> nat \<Rightarrow> nat
     \<Rightarrow> nat \<times> string \<Rightarrow> LinearConstraint" where
  "comparison_row self evaluation proj_a proj_b idx_a idx_b =
     (\<lambda>(crit_idx, criterion).
        \<lparr> coefficients = (replicate (n_projects self * n_criteria self) 0)
            [idx_a * n_criteria self + crit_idx := 1, idx_b * n_criteria self + crit_idx := - 1],
          bound = (if operator evaluation = Some EQUAL then 0 else - (1 / 100)),
          is_equality = (operator evaluation = Some EQUAL),
          constraint_id = ''comp_'' @ proj_a @ ''_'' @ proj_b @ ''_'' @ criterion,
          source_evaluation = Some evaluation \<rparr>)"

text \<open>
  An evaluation with the defaults of the dataclass for the fields not given, and the
  translator for the entities \<open>A\<close>, \<open>B\<close> with the default criterion.
\<close>

definition make_evaluation ::
  "EvaluationType \<Rightarrow> string list \<Rightarrow> ComparisonOperator option \<Rightarrow> real list option
     \<Rightarrow> QualitativeEvaluation" where
  "make_evaluation ty ps opr vals =
     \<lparr> evaluator_id = ''expert_1'', evaluation_type = ty, eval_projects = ps, operator = opr,
       eval_values = vals, confidence = 1, eval_criteria = None, timestamp = None,
       metadata = None \<rparr>"

definition example_translator :: QualitativeEvaluationTranslator where
  "example_translator = fst (translator_init [''A'', ''B''] None)"

text \<open>
  The parser \<^verbatim>\<open>translate_evaluations\<close> selects for an evaluation (\<open>None\<close> for a
  kind it does not support), the constraints an evaluation contributes to the batch and the
  log lines it causes.
\<close>

definition parse_by_type ::
  "QualitativeEvaluationTranslator \<Rightarrow> QualitativeEvaluation
     \<Rightarrow> (error + LinearConstraint list) option" where
  "parse_by_type self e =
     (case evaluation_type e of
        COMPARISON \<Rightarrow> Some (parse_comparison_evaluation self e)
      | RANGE \<Rightarrow> Some (parse_range_evaluation self e)
      | RANKING \<Rightarrow> Some (parse_ranking_evaluation self e)
      | THRESHOLD \<Rightarrow> Some (parse_threshold_evaluation self e)
      | PREFERENCE \<Rightarrow> None)"

definition produced ::
  "QualitativeEvaluationTranslator \<Rightarrow> QualitativeEvaluation \<Rightarrow> LinearConstraint list" where
  "produced self e = (case parse_by_type self e of Some (Inr cs) \<Rightarrow> cs | _ \<Rightarrow> [])"

definition logged ::
  "QualitativeEvaluationTranslator \<Rightarrow> QualitativeEvaluation \<Rightarrow> log_record list" where
  "logged self e =
     (case parse_by_type self e of
        Some (Inl err) \<Rightarrow> [Error_processing (evaluator_id e) err]
      | Some (Inr cs) \<Rightarrow> []
      | None \<Rightarrow> [Warning_unsupported (evaluation_type e)])"

text \<open>The two tests a solved point passes before it is appended to \<open>vertices\<close>.\<close>

definition accepted ::
  "linalg \<Rightarrow> PolytopeVisualizer \<Rightarrow> (real \<times> real) list \<Rightarrow> real list \<Rightarrow> bool" where
  "accepted la self bs v \<longleftrightarrow>
     satisfies_all la (A_ineq self) (b_ineq self) v = Inr True \<and>
     within_bounds bs v [0 ..< n_dimensions self] = Inr True"

text \<open>
  A property of the rounding that float64 has: two floats less than \<open>1e-8\<close> apart pass
  the test of \<^verbatim>\<open>np.allclose\<close>. (Rounding to nearest is monotone, so the rounded
  difference is at most the float of the literal \<^verbatim>\<open>1e-8\<close>, and the rounded
  right-hand side is at least that float, the relative term being non-negative.)
\<close>

definition tolerance_covers :: "linalg \<Rightarrow> bool" where
  "tolerance_covers la \<longleftrightarrow> (\<forall>x y. \<bar>x - y\<bar> < 1 / 10 ^ 8 \<longrightarrow> isclose la x y)"

text \<open>
  Concrete systems. \<open>with_evaluations\<close> adds a batch to a translator. The first
  system has two thresholds and an equality between \<open>A\<close> and \<open>B\<close>; the second has two
  thresholds on \<open>A\<close> that leave the interval from \<open>1\<close> to \<open>1 + 2^-17\<close>; the third has
  three upper limits on \<open>A\<close>; the fourth leaves the segment from \<open>1\<close> to \<open>2\<close>.
\<close>

definition with_evaluations ::
  "QualitativeEvaluationTranslator \<Rightarrow> QualitativeEvaluation list \<Rightarrow> QualitativeEvaluationTranslator" where
  "with_evaluations tr es = fold (\<lambda>e t. fst (add_evaluation t e)) es tr"

definition equality_system :: QualitativeEvaluationTranslator where
  "equality_system = with_evaluations example_translator
     [make_evaluation THRESHOLD [''A''] (Some GREATER_EQUAL) (Some [1]),
      make_evaluation THRESHOLD [''B''] (Some GREATER_EQUAL) (Some [2]),
      make_evaluation COMPARISON [''A'', ''B''] (Some EQUAL) None]"

definition equality_visualizer :: PolytopeVisualizer where
  "equality_visualizer = projr (visualizer_init equality_system)"

definition interval_system :: QualitativeEvaluationTranslator where
  "interval_system = with_evaluations (fst (translator_init [''A''] None))
     [make_evaluation THRESHOLD [''A''] (Some GREATER_EQUAL) (Some [131073 / 131072]),
      make_evaluation THRESHOLD [''A''] (Some LESS_EQUAL) (Some [1])]"

definition interval_visualizer :: PolytopeVisualizer where
  "interval_visualizer = projr (visualizer_init interval_system)"

definition limits_system :: QualitativeEvaluationTranslator where
  "limits_system = with_evaluations (fst (translator_init [''A''] None))
     [make_evaluation THRESHOLD [''A''] (Some GREATER_EQUAL) (Some [5]),
      make_evaluation THRESHOLD [''A''] (Some GREATER_EQUAL) (Some [3]),
      make_evaluation THRESHOLD [''A''] (Some GREATER_EQUAL) (Some [0])]"

definition limits_visualizer :: PolytopeVisualizer where
  "limits_visualizer = projr (visualizer_init limits_system)"

definition segment_system :: QualitativeEvaluationTranslator where
  "segment_system = with_evaluations (fst (translator_init [''A''] None))
     [make_evaluation THRESHOLD [''A''] (Some GREATER_EQUAL) (Some [2]),
      make_evaluation THRESHOLD [''A''] (Some LESS_EQUAL) (Some [1])]"

definition segment_visualizer :: PolytopeVisualizer where
  "segment_visualizer = projr (visualizer_init segment_system)"

section \<open>Properties of the translator\<close>

subsection \<open>Index dictionary, loops and the invariant\<close>

lemma index_from_Some:
  "index_from n xs m k = Some i \<Longrightarrow>
     m k = Some i \<or> (n \<le> i \<and> i < n + length xs \<and> xs ! (i - n) = k)"
proof (induction xs arbitrary: n m)
  case Nil
  then show ?case by simp
next
  case (Cons x xs)
  from Cons.prems have "index_from (Suc n) xs (m(x \<mapsto> n)) k = Some i"
    by simp
  from Cons.IH [OF this] show ?case
    by (auto split: if_splits simp: nth_Cons')
qed

lemma index_from_defined:
  "m k \<noteq> None \<or> k \<in> set xs \<Longrightarrow> index_from n xs m k \<noteq> None"
  by (induction xs arbitrary: n m) auto

lemma index_dict_Some:
  "index_dict xs k = Some i \<Longrightarrow> i < length xs \<and> xs ! i = k"
  using index_from_Some [of 0 xs Map.empty k i] by (simp add: index_dict_def)

lemma index_dict_mem:
  "k \<in> set xs \<Longrightarrow> \<exists>i. index_dict xs k = Some i"
  using index_from_defined [of Map.empty k xs 0] by (auto simp: index_dict_def)

lemma for_loop_append:
  assumes "\<And>s x. x \<in> set xs \<Longrightarrow> body s x = Inr (s @ f x)"
  shows "for_loop body xs s = Inr (s @ concat (map f xs))"
  using assms by (induction xs arbitrary: s) simp_all

lemma position_in_range:
  fixes i j np nc :: nat
  assumes "i < np" "j < nc"
  shows "i * nc + j < np * nc"
proof -
  have "i * nc + j < Suc i * nc" using assms(2) by simp
  also have "\<dots> \<le> np * nc" using assms(1) by (intro mult_le_mono1) simp
  finally show ?thesis .
qed

lemma comparison_coeffs_in_range:
  assumes "pos_a < n_projects self * n_criteria self" "pos_b < n_projects self * n_criteria self"
  shows "comparison_coeffs self pos_a pos_b =
           Inr ((replicate (n_projects self * n_criteria self) 0)[pos_a := 1, pos_b := - 1])"
  using assms by (simp add: comparison_coeffs_def setitem_def)

lemma concat_map_singleton: "concat (map (\<lambda>x. [g x]) xs) = map g xs"
  by (induction xs) simp_all

lemma comparison_body_step:
  assumes "idx_a < n_projects self" "idx_b < n_projects self" "fst x < n_criteria self"
  shows "comparison_body self e a b idx_a idx_b s x =
           Inr (s @ (if operator e \<in> {Some GREATER, Some LESS, Some EQUAL}
                     then [comparison_row self e a b idx_a idx_b x] else []))"
proof -
  obtain j c where x: "x = (j, c)" by (cases x)
  have ra: "idx_a * n_criteria self + j < n_projects self * n_criteria self"
    and rb: "idx_b * n_criteria self + j < n_projects self * n_criteria self"
    using assms x by (simp_all add: position_in_range)
  show ?thesis
    unfolding x comparison_body_def comparison_row_def
    by (simp add: comparison_coeffs_in_range [OF ra rb] Let_def)
qed

lemma comparison_loop:
  assumes "n_criteria self = length (criteria self)"
    and "idx_a < n_projects self" "idx_b < n_projects self"
  shows "for_loop (comparison_body self e a b idx_a idx_b) (List.enumerate 0 (criteria self)) [] =
           Inr (if operator e \<in> {Some GREATER, Some LESS, Some EQUAL}
                then map (comparison_row self e a b idx_a idx_b) (List.enumerate 0 (criteria self))
                else [])"
proof -
  let ?f = "\<lambda>x. if operator e \<in> {Some GREATER, Some LESS, Some EQUAL}
                then [comparison_row self e a b idx_a idx_b x] else []"
  have "for_loop (comparison_body self e a b idx_a idx_b) (List.enumerate 0 (criteria self)) [] =
          Inr ([] @ concat (map ?f (List.enumerate 0 (criteria self))))"
  proof (rule for_loop_append)
    fix s x
    assume "x \<in> set (List.enumerate 0 (criteria self))"
    then have "fst x < n_criteria self"
      using assms(1) by (simp add: in_set_enumerate_eq)
    then show "comparison_body self e a b idx_a idx_b s x = Inr (s @ ?f x)"
      using comparison_body_step [OF assms(2,3)] by simp
  qed
  then show ?thesis
    by (simp add: concat_map_singleton)
qed

lemma parse_comparison_known:
  assumes "translator_inv self" "eval_projects e = [a, b]"
    and "project_index self a = Some idx_a" "project_index self b = Some idx_b"
  shows "parse_comparison_evaluation self e =
           Inr (if operator e \<in> {Some GREATER, Some LESS, Some EQUAL}
                then map (comparison_row self e a b idx_a idx_b) (List.enumerate 0 (criteria self))
                else [])"
proof -
  have "idx_a < n_projects self" "idx_b < n_projects self"
    using assms index_dict_Some unfolding translator_inv_def by metis+
  moreover have "n_criteria self = length (criteria self)"
    using assms(1) by (simp add: translator_inv_def)
  ultimately show ?thesis
    using assms(2-4) comparison_loop [of self idx_a idx_b e a b]
    by (simp add: parse_comparison_evaluation_def lookup_project_def)
qed

lemma translator_init_inv: "translator_inv (fst (translator_init ps crit))"
  by (simp add: translator_init_def translator_inv_def Let_def)

lemma add_evaluation_inv:
  "translator_inv (fst (add_evaluation self e)) = translator_inv self"
  by (simp add: add_evaluation_def translator_inv_def)

lemma translate_evaluations_inv:
  "translator_inv (fst (snd (translate_evaluations self))) = translator_inv self"
  by (simp add: translate_evaluations_def translator_inv_def split_def Let_def)

lemma example_translator_inv: "translator_inv example_translator"
  unfolding example_translator_def by (rule translator_init_inv)

lemma example_index:
  "project_index example_translator ''A'' = Some 0"
  "project_index example_translator ''B'' = Some 1"
  by (simp_all add: example_translator_def translator_init_def index_dict_def Let_def)

lemma example_sizes:
  "n_projects example_translator = 2" "n_criteria example_translator = 1"
  "criteria example_translator = [''value'']" "projects example_translator = [''A'', ''B'']"
  by (simp_all add: example_translator_def translator_init_def Let_def)

subsection \<open>Comparison with operator \<open>>\<close>\<close>

text \<open>
  C2 (amended). For a comparison with operator \<open>>\<close> between two distinct known
  entities \<open>a \<noteq> b\<close>, the translator emits exactly one constraint for each criterion
  position \<open>j\<close>: its coefficient vector has length \<open>n_projects * n_criteria\<close>, is
  \<open>+1\<close> at \<open>index(a) * n_criteria + j\<close>, \<open>-1\<close> at \<open>index(b) * n_criteria + j\<close>
  and zero elsewhere; its bound is \<open>-0.01\<close> and it is an inequality.
\<close>

theorem comparison_greater_distinct:
  assumes "translator_inv self" "eval_projects e = [a, b]" "operator e = Some GREATER"
    and "project_index self a = Some ia" "project_index self b = Some ib" "a \<noteq> b"
  shows "\<exists>cs. parse_comparison_evaluation self e = Inr cs \<and> length cs = n_criteria self \<and>
           (\<forall>j < n_criteria self.
              length (coefficients (cs ! j)) = n_projects self * n_criteria self \<and>
              (\<forall>k < n_projects self * n_criteria self.
                 coefficients (cs ! j) ! k =
                   (if k = ia * n_criteria self + j then 1
                    else if k = ib * n_criteria self + j then - 1 else 0)) \<and>
              bound (cs ! j) = - (1 / 100) \<and> \<not> is_equality (cs ! j))"
proof -
  let ?cs = "map (comparison_row self e a b ia ib) (List.enumerate 0 (criteria self))"
  have nc: "n_criteria self = length (criteria self)"
    using assms(1) by (simp add: translator_inv_def)
  have parse: "parse_comparison_evaluation self e = Inr ?cs"
    using parse_comparison_known [OF assms(1,2,4,5)] assms(3) by simp
  have "projects self ! ia = a" "projects self ! ib = b"
    using assms(1,4,5) index_dict_Some unfolding translator_inv_def by metis+
  with assms(6) have neq: "ia \<noteq> ib" by auto
  have row: "length (coefficients (?cs ! j)) = n_projects self * n_criteria self \<and>
              (\<forall>k < n_projects self * n_criteria self.
                 coefficients (?cs ! j) ! k =
                   (if k = ia * n_criteria self + j then 1
                    else if k = ib * n_criteria self + j then - 1 else 0)) \<and>
              bound (?cs ! j) = - (1 / 100) \<and> \<not> is_equality (?cs ! j)"
    if j: "j < n_criteria self" for j
  proof -
    have nth: "?cs ! j = comparison_row self e a b ia ib (j, criteria self ! j)"
      using j nc by (simp add: nth_enumerate_eq)
    have pos: "ia * n_criteria self + j \<noteq> ib * n_criteria self + j"
      using neq j by simp
    show ?thesis
      using pos assms(3) by (simp only: nth) (simp add: comparison_row_def nth_list_update)
  qed
  show ?thesis
    using parse nc row by (intro exI [of _ ?cs]) simp
qed

text \<open>The theorem at the translator for entities \<open>A\<close>, \<open>B\<close> and the default criterion.\<close>

theorem comparison_greater_distinct_witness:
  "translator_inv example_translator \<and>
   eval_projects (make_evaluation COMPARISON [''A'', ''B''] (Some GREATER) None) = [''A'', ''B''] \<and>
   operator (make_evaluation COMPARISON [''A'', ''B''] (Some GREATER) None) = Some GREATER \<and>
   project_index example_translator ''A'' = Some 0 \<and>
   project_index example_translator ''B'' = Some 1 \<and> ''A'' \<noteq> ''B'' \<and>
   (\<exists>cs. parse_comparison_evaluation example_translator
            (make_evaluation COMPARISON [''A'', ''B''] (Some GREATER) None) = Inr cs \<and>
          length cs = 1 \<and> coefficients (cs ! 0) = [1, - 1] \<and>
          bound (cs ! 0) = - (1 / 100) \<and> \<not> is_equality (cs ! 0))"
proof -
  let ?e = "make_evaluation COMPARISON [''A'', ''B''] (Some GREATER) None"
  have h: "eval_projects ?e = [''A'', ''B'']" "operator ?e = Some GREATER" "''A'' \<noteq> ''B''"
    by (simp_all add: make_evaluation_def)
  from comparison_greater_distinct
    [OF example_translator_inv h(1,2) example_index(1) example_index(2) h(3)]
  obtain cs where cs: "parse_comparison_evaluation example_translator ?e = Inr cs"
    "length cs = 1"
    "length (coefficients (cs ! 0)) = 2"
    "\<forall>k<2. coefficients (cs ! 0) ! k = (if k = 0 then 1 else if k = 1 then - 1 else 0)"
    "bound (cs ! 0) = - (1 / 100)" "\<not> is_equality (cs ! 0)"
    by (auto simp: example_sizes)
  have "coefficients (cs ! 0) = [1, - 1]"
    using cs(3,4) by (intro nth_equalityI) (auto simp: less_Suc_eq numeral_2_eq_2)
  then show ?thesis
    using cs h example_translator_inv example_index by auto
qed

text \<open>
  C2 as stated fails when both entities are the same: the second assignment overwrites the
  first, so the coefficient at \<open>index(a, c)\<close> is \<open>-1\<close> and no entry is \<open>+1\<close>.
\<close>

theorem comparison_same_entity_counterexample:
  "parse_comparison_evaluation (fst (translator_init [''A''] None))
     (make_evaluation COMPARISON [''A'', ''A''] (Some GREATER) None) =
   Inr [\<lparr> coefficients = [- 1], bound = - (1 / 100), is_equality = False,
          constraint_id = ''comp_A_A_value'',
          source_evaluation = Some (make_evaluation COMPARISON [''A'', ''A''] (Some GREATER) None) \<rparr>]
   \<and> project_index (fst (translator_init [''A''] None)) ''A'' = Some 0
   \<and> \<not> (\<exists>cs. parse_comparison_evaluation (fst (translator_init [''A''] None))
                (make_evaluation COMPARISON [''A'', ''A''] (Some GREATER) None) = Inr cs \<and>
              coefficients (cs ! 0) ! (0 * n_criteria (fst (translator_init [''A''] None)) + 0) = 1)"
  by (simp add: translator_init_def index_dict_def make_evaluation_def
      parse_comparison_evaluation_def lookup_project_def comparison_body_def
      comparison_coeffs_def setitem_def Let_def)

subsection \<open>Operator \<open><\<close> against operator \<open>>\<close>\<close>

lemma comparison_row_data:
  "coefficients (comparison_row self e a b ia ib x) =
     (replicate (n_projects self * n_criteria self) 0)
       [ia * n_criteria self + fst x := 1, ib * n_criteria self + fst x := - 1]"
  "bound (comparison_row self e a b ia ib x) = (if operator e = Some EQUAL then 0 else - (1 / 100))"
  "is_equality (comparison_row self e a b ia ib x) = (operator e = Some EQUAL)"
  "constraint_id (comparison_row self e a b ia ib x) =
     ''comp_'' @ a @ ''_'' @ b @ ''_'' @ snd x"
  by (cases x; simp add: comparison_row_def)+

text \<open>
  C4. For a comparison between two known entities, operator \<open><\<close> produces the same
  coefficient vectors, bounds and equality flags (and identifiers) as operator \<open>>\<close>, one
  constraint for each criterion.
\<close>

theorem comparison_less_mirrors_greater:
  assumes "translator_inv self" "eval_projects e = [a, b]"
    and "a \<in> set (projects self)" "b \<in> set (projects self)"
  shows "\<exists>cs cs'. parse_comparison_evaluation self (e\<lparr>operator := Some LESS\<rparr>) = Inr cs \<and>
           parse_comparison_evaluation self (e\<lparr>operator := Some GREATER\<rparr>) = Inr cs' \<and>
           length cs = n_criteria self \<and>
           map coefficients cs = map coefficients cs' \<and> map bound cs = map bound cs' \<and>
           map is_equality cs = map is_equality cs' \<and>
           map constraint_id cs = map constraint_id cs'"
proof -
  from assms(1,3,4) obtain ia ib where
    idx: "project_index self a = Some ia" "project_index self b = Some ib"
    using index_dict_mem unfolding translator_inv_def by metis
  let ?lt = "e\<lparr>operator := Some LESS\<rparr>" and ?gt = "e\<lparr>operator := Some GREATER\<rparr>"
  have "parse_comparison_evaluation self ?lt =
          Inr (map (comparison_row self ?lt a b ia ib) (List.enumerate 0 (criteria self)))"
    using parse_comparison_known [OF assms(1) _ idx, of ?lt] assms(2) by simp
  moreover have "parse_comparison_evaluation self ?gt =
          Inr (map (comparison_row self ?gt a b ia ib) (List.enumerate 0 (criteria self)))"
    using parse_comparison_known [OF assms(1) _ idx, of ?gt] assms(2) by simp
  moreover have "length (criteria self) = n_criteria self"
    using assms(1) by (simp add: translator_inv_def)
  ultimately show ?thesis
    by (simp add: comparison_row_data)
qed

theorem comparison_less_mirrors_greater_witness:
  "translator_inv example_translator \<and>
   eval_projects (make_evaluation COMPARISON [''A'', ''B''] (Some LESS) None) = [''A'', ''B''] \<and>
   ''A'' \<in> set (projects example_translator) \<and> ''B'' \<in> set (projects example_translator) \<and>
   (\<exists>cs cs'. parse_comparison_evaluation example_translator
                (make_evaluation COMPARISON [''A'', ''B''] (Some LESS) None) = Inr cs \<and>
              parse_comparison_evaluation example_translator
                (make_evaluation COMPARISON [''A'', ''B''] (Some GREATER) None) = Inr cs' \<and>
              length cs = 1 \<and>
              map coefficients cs = map coefficients cs' \<and> map bound cs = map bound cs' \<and>
              map is_equality cs = map is_equality cs')"
proof -
  let ?e = "make_evaluation COMPARISON [''A'', ''B''] (Some LESS) None"
  have h: "eval_projects ?e = [''A'', ''B'']"
    "''A'' \<in> set (projects example_translator)" "''B'' \<in> set (projects example_translator)"
    by (simp_all add: make_evaluation_def example_sizes)
  have upd: "?e\<lparr>operator := Some LESS\<rparr> = ?e"
    "?e\<lparr>operator := Some GREATER\<rparr> = make_evaluation COMPARISON [''A'', ''B''] (Some GREATER) None"
    by (simp_all add: make_evaluation_def)
  show ?thesis
    using comparison_less_mirrors_greater [OF example_translator_inv h] h example_translator_inv
    by (auto simp: upd example_sizes)
qed

subsection \<open>Rankings\<close>

lemma sum_list_const_length: "sum_list (map (\<lambda>x. (c::nat)) xs) = length xs * c"
  by (induction xs) simp_all

text \<open>
  C5. A ranking of \<open>k \<ge> 2\<close> known entities is translated as the \<open>k - 1\<close> comparisons
  with operator \<open>>\<close> of its consecutive pairs, concatenated in order, which gives exactly
  \<open>(k - 1) * n_criteria\<close> constraints; a ranking of fewer than two entities fails with
  a \<open>ValueError\<close>.
\<close>

theorem ranking_decomposition:
  assumes "translator_inv self" "set (eval_projects e) \<subseteq> set (projects self)"
  shows "(2 \<le> length (eval_projects e) \<longrightarrow>
           (\<exists>css. length css = length (eval_projects e) - 1 \<and>
              (\<forall>i < length (eval_projects e) - 1.
                 operator (comp_eval e (eval_projects e ! i) (eval_projects e ! Suc i))
                   = Some GREATER \<and>
                 eval_projects (comp_eval e (eval_projects e ! i) (eval_projects e ! Suc i))
                   = [eval_projects e ! i, eval_projects e ! Suc i] \<and>
                 parse_comparison_evaluation self
                   (comp_eval e (eval_projects e ! i) (eval_projects e ! Suc i)) = Inr (css ! i)) \<and>
              parse_ranking_evaluation self e = Inr (concat css) \<and>
              length (concat css) = (length (eval_projects e) - 1) * n_criteria self)) \<and>
         (length (eval_projects e) < 2 \<longrightarrow>
           parse_ranking_evaluation self e =
             Inl (ValueError ''Ranking evaluation must involve at least 2 projects''))"
proof -
  let ?ps = "eval_projects e"
  let ?pair = "\<lambda>i. comp_eval e (?ps ! i) (?ps ! Suc i)"
  let ?f = "\<lambda>i. projr (parse_comparison_evaluation self (?pair i))"
  have nc: "length (criteria self) = n_criteria self"
    using assms(1) by (simp add: translator_inv_def)
  have pair: "parse_comparison_evaluation self (?pair i) = Inr (?f i) \<and> length (?f i) = n_criteria self"
    if i: "i < length ?ps - 1" for i
  proof -
    have "?ps ! i \<in> set (projects self)" "?ps ! Suc i \<in> set (projects self)"
      using i assms(2) by (auto simp: subset_iff)
    then obtain ia ib where
      idx: "project_index self (?ps ! i) = Some ia" "project_index self (?ps ! Suc i) = Some ib"
      using assms(1) index_dict_mem unfolding translator_inv_def by metis
    have "eval_projects (?pair i) = [?ps ! i, ?ps ! Suc i]" "operator (?pair i) = Some GREATER"
      by (simp_all add: comp_eval_def)
    then show ?thesis
      using parse_comparison_known [OF assms(1) _ idx, of "?pair i"] nc by simp
  qed
  have loop: "for_loop (ranking_body self e) [0 ..< length ?ps - 1] [] =
                Inr ([] @ concat (map ?f [0 ..< length ?ps - 1]))"
  proof (rule for_loop_append)
    fix s i
    assume "i \<in> set [0 ..< length ?ps - 1]"
    then have i: "i < length ?ps - 1" by simp
    then have "Suc i < length ?ps" by simp
    moreover obtain cs where "parse_comparison_evaluation self (?pair i) = Inr cs"
      using pair [OF i] by blast
    ultimately show "ranking_body self e s i = Inr (s @ ?f i)"
      by (simp add: ranking_body_def Let_def)
  qed
  have len: "length (concat (map ?f [0 ..< length ?ps - 1])) = (length ?ps - 1) * n_criteria self"
  proof -
    have "map (length \<circ> ?f) [0 ..< length ?ps - 1] = map (\<lambda>i. n_criteria self) [0 ..< length ?ps - 1]"
      using pair by (intro map_cong) simp_all
    then show ?thesis
      by (simp add: length_concat sum_list_const_length del: map_eq_conv)
  qed
  have long: "\<exists>css. length css = length ?ps - 1 \<and>
              (\<forall>i < length ?ps - 1.
                 operator (?pair i) = Some GREATER \<and>
                 eval_projects (?pair i) = [?ps ! i, ?ps ! Suc i] \<and>
                 parse_comparison_evaluation self (?pair i) = Inr (css ! i)) \<and>
              parse_ranking_evaluation self e = Inr (concat css) \<and>
              length (concat css) = (length ?ps - 1) * n_criteria self"
    if "2 \<le> length ?ps"
  proof (intro exI [of _ "map ?f [0 ..< length ?ps - 1]"] conjI allI impI)
    show "length (map ?f [0 ..< length ?ps - 1]) = length ?ps - 1" by simp
    show "parse_ranking_evaluation self e = Inr (concat (map ?f [0 ..< length ?ps - 1]))"
      using that loop by (simp add: parse_ranking_evaluation_def)
    show "length (concat (map ?f [0 ..< length ?ps - 1])) = (length ?ps - 1) * n_criteria self"
      by (rule len)
  next
    fix i assume i: "i < length ?ps - 1"
    show "operator (?pair i) = Some GREATER" by (simp add: comp_eval_def)
    show "eval_projects (?pair i) = [?ps ! i, ?ps ! Suc i]" by (simp add: comp_eval_def)
    show "parse_comparison_evaluation self (?pair i) = Inr (map ?f [0 ..< length ?ps - 1] ! i)"
      using pair [OF i] i by simp
  qed
  have short: "parse_ranking_evaluation self e =
             Inl (ValueError ''Ranking evaluation must involve at least 2 projects'')"
    if "length ?ps < 2"
    using that by (simp add: parse_ranking_evaluation_def)
  show ?thesis
    using long short by blast
qed

text \<open>The theorem at a ranking of three entities and at a ranking of one.\<close>

theorem ranking_decomposition_witness:
  "translator_inv example_translator \<and>
   set (eval_projects (make_evaluation RANKING [''A'', ''B'', ''A''] None None))
     \<subseteq> set (projects example_translator) \<and>
   2 \<le> length (eval_projects (make_evaluation RANKING [''A'', ''B'', ''A''] None None)) \<and>
   (\<exists>cs. parse_ranking_evaluation example_translator
            (make_evaluation RANKING [''A'', ''B'', ''A''] None None) = Inr cs \<and>
          length cs = 2) \<and>
   set (eval_projects (make_evaluation RANKING [''A''] None None))
     \<subseteq> set (projects example_translator) \<and>
   length (eval_projects (make_evaluation RANKING [''A''] None None)) < 2 \<and>
   parse_ranking_evaluation example_translator (make_evaluation RANKING [''A''] None None) =
     Inl (ValueError ''Ranking evaluation must involve at least 2 projects'')"
proof -
  let ?e3 = "make_evaluation RANKING [''A'', ''B'', ''A''] None None"
  let ?e1 = "make_evaluation RANKING [''A''] None None"
  have h3: "set (eval_projects ?e3) \<subseteq> set (projects example_translator)"
    and h1: "set (eval_projects ?e1) \<subseteq> set (projects example_translator)"
    by (simp_all add: make_evaluation_def example_sizes)
  have l3: "length (eval_projects ?e3) = 3" and l1: "length (eval_projects ?e1) = 1"
    by (simp_all add: make_evaluation_def)
  from ranking_decomposition [OF example_translator_inv h3] l3
  have "\<exists>cs. parse_ranking_evaluation example_translator ?e3 = Inr cs \<and> length cs = 2"
    by (auto simp: example_sizes)
  moreover from ranking_decomposition [OF example_translator_inv h1] l1
  have "parse_ranking_evaluation example_translator ?e1 =
          Inl (ValueError ''Ranking evaluation must involve at least 2 projects'')"
    by simp
  ultimately show ?thesis
    using example_translator_inv h3 h1 l3 l1 by simp
qed

subsection \<open>Operators a parser does not handle\<close>

lemma threshold_loop_other:
  "operator e \<notin> {Some GREATER_EQUAL, Some LESS_EQUAL} \<Longrightarrow>
     for_loop (threshold_body self e p idx t) xs s = Inr s"
  by (induction xs arbitrary: s) (simp_all add: threshold_body_def split_def)

text \<open>
  C10. A comparison of exactly two known entities whose operator is none of \<open>>\<close>,
  \<open><\<close>, \<open>=\<close> (the operator may also be absent), and a threshold on exactly one known
  entity with exactly one value whose operator is neither \<open>>=\<close> nor \<open><=\<close>, translate
  successfully to the empty list; the batch loop then leaves the accumulated constraints
  and the log as they were, so nothing is emitted and nothing is reported.
\<close>

theorem unhandled_operator_yields_nothing:
  assumes "translator_inv self"
  shows "(evaluation_type e = COMPARISON \<and> eval_projects e = [a, b] \<and>
          a \<in> set (projects self) \<and> b \<in> set (projects self) \<and>
          operator e \<notin> {Some GREATER, Some LESS, Some EQUAL} \<longrightarrow>
            parse_comparison_evaluation self e = Inr [] \<and> translate_body self state e = state) \<and>
         (evaluation_type t = THRESHOLD \<and> eval_projects t = [p] \<and> p \<in> set (projects self) \<and>
          eval_values t = Some [v] \<and>
          operator t \<notin> {Some GREATER_EQUAL, Some LESS_EQUAL} \<longrightarrow>
            parse_threshold_evaluation self t = Inr [] \<and> translate_body self state t = state)"
proof (intro conjI impI)
  assume c: "evaluation_type e = COMPARISON \<and> eval_projects e = [a, b] \<and>
          a \<in> set (projects self) \<and> b \<in> set (projects self) \<and>
          operator e \<notin> {Some GREATER, Some LESS, Some EQUAL}"
  then obtain ia ib where
    idx: "project_index self a = Some ia" "project_index self b = Some ib"
    using assms index_dict_mem unfolding translator_inv_def by metis
  show parse: "parse_comparison_evaluation self e = Inr []"
    using parse_comparison_known [OF assms _ idx, of e] c by simp
  show "translate_body self state e = state"
    using c parse by (simp add: translate_body_def extend_or_log_def)
next
  assume c: "evaluation_type t = THRESHOLD \<and> eval_projects t = [p] \<and> p \<in> set (projects self) \<and>
          eval_values t = Some [v] \<and>
          operator t \<notin> {Some GREATER_EQUAL, Some LESS_EQUAL}"
  then obtain i where idx: "project_index self p = Some i"
    using assms index_dict_mem unfolding translator_inv_def by metis
  show parse: "parse_threshold_evaluation self t = Inr []"
    using c idx threshold_loop_other [of t]
    by (simp add: parse_threshold_evaluation_def lookup_project_def)
  show "translate_body self state t = state"
    using c parse by (simp add: translate_body_def extend_or_log_def)
qed

text \<open>The theorem at a comparison with \<open>>=\<close> and at a threshold with \<open>>\<close>.\<close>

theorem unhandled_operator_yields_nothing_witness:
  "translator_inv example_translator \<and>
   evaluation_type (make_evaluation COMPARISON [''A'', ''B''] (Some GREATER_EQUAL) None) = COMPARISON \<and>
   eval_projects (make_evaluation COMPARISON [''A'', ''B''] (Some GREATER_EQUAL) None) = [''A'', ''B''] \<and>
   ''A'' \<in> set (projects example_translator) \<and> ''B'' \<in> set (projects example_translator) \<and>
   operator (make_evaluation COMPARISON [''A'', ''B''] (Some GREATER_EQUAL) None)
     \<notin> {Some GREATER, Some LESS, Some EQUAL} \<and>
   parse_comparison_evaluation example_translator
     (make_evaluation COMPARISON [''A'', ''B''] (Some GREATER_EQUAL) None) = Inr [] \<and>
   translate_body example_translator ([], [])
     (make_evaluation COMPARISON [''A'', ''B''] (Some GREATER_EQUAL) None) = ([], []) \<and>
   evaluation_type (make_evaluation THRESHOLD [''A''] (Some GREATER) (Some [1 / 2])) = THRESHOLD \<and>
   eval_projects (make_evaluation THRESHOLD [''A''] (Some GREATER) (Some [1 / 2])) = [''A''] \<and>
   eval_values (make_evaluation THRESHOLD [''A''] (Some GREATER) (Some [1 / 2])) = Some [1 / 2] \<and>
   operator (make_evaluation THRESHOLD [''A''] (Some GREATER) (Some [1 / 2]))
     \<notin> {Some GREATER_EQUAL, Some LESS_EQUAL} \<and>
   parse_threshold_evaluation example_translator
     (make_evaluation THRESHOLD [''A''] (Some GREATER) (Some [1 / 2])) = Inr [] \<and>
   translate_body example_translator ([], [])
     (make_evaluation THRESHOLD [''A''] (Some GREATER) (Some [1 / 2])) = ([], [])"
proof -
  let ?c = "make_evaluation COMPARISON [''A'', ''B''] (Some GREATER_EQUAL) None"
  let ?t = "make_evaluation THRESHOLD [''A''] (Some GREATER) (Some [1 / 2])"
  have hc: "evaluation_type ?c = COMPARISON \<and> eval_projects ?c = [''A'', ''B''] \<and>
          ''A'' \<in> set (projects example_translator) \<and> ''B'' \<in> set (projects example_translator) \<and>
          operator ?c \<notin> {Some GREATER, Some LESS, Some EQUAL}"
    by (simp add: make_evaluation_def example_sizes)
  have ht: "evaluation_type ?t = THRESHOLD \<and> eval_projects ?t = [''A''] \<and>
          ''A'' \<in> set (projects example_translator) \<and> eval_values ?t = Some [1 / 2] \<and>
          operator ?t \<notin> {Some GREATER_EQUAL, Some LESS_EQUAL}"
    by (simp add: make_evaluation_def example_sizes)
  note inst = unhandled_operator_yields_nothing [OF example_translator_inv,
      of "?c" "''A''" "''B''" "([], [])" "?t" "''A''" "1 / 2"]
  show ?thesis
    using inst hc ht example_translator_inv by blast
qed

subsection \<open>The batch\<close>

lemma translate_body_eq:
  "translate_body self state e = (fst state @ produced self e, snd state @ logged self e)"
  by (cases "evaluation_type e")
    (auto simp: translate_body_def extend_or_log_def produced_def logged_def parse_by_type_def
      split: sum.splits)

lemma translate_loop_eq:
  "translate_loop self es state =
     (fst state @ concat (map (produced self) es), snd state @ concat (map (logged self) es))"
  by (induction es arbitrary: state) (simp_all add: translate_body_eq)

text \<open>
  C3 (amended). \<^verbatim>\<open>translate_evaluations\<close> always returns: an evaluation whose parser
  raises, or whose kind is not supported, contributes no constraint and one log line (the
  evaluator id with the exception, or the unsupported kind), and the loop goes on. The
  value returned, also stored in \<open>constraints\<close>, is the concatenation in input order of
  the constraints of the evaluations that translate; the failures are written to the log
  only, they are not part of the returned value.
\<close>

theorem translate_evaluations_batch:
  "translate_evaluations self =
     (concat (map (produced self) (evaluations self)),
      self\<lparr>constraints := concat (map (produced self) (evaluations self))\<rparr>,
      concat (map (logged self) (evaluations self)) @
        [Info_generated (length (concat (map (produced self) (evaluations self))))
           (length (evaluations self))])"
  by (simp add: translate_evaluations_def translate_loop_eq)

lemmas translator_defs =
  example_translator_def translator_init_def index_dict_def make_evaluation_def
  parse_comparison_evaluation_def lookup_project_def comparison_body_def
  comparison_coeffs_def setitem_def Let_def

text \<open>
  C3 as stated fails in its last part: the value returned for a batch with a failing
  evaluation (an unknown entity \<open>Z\<close>) is the value returned for the batch without it, and
  so is the stored constraint list; the returned value holds no report.
\<close>

theorem translate_report_counterexample:
  "parse_comparison_evaluation example_translator
     (make_evaluation COMPARISON [''A'', ''Z''] (Some GREATER) None) = Inl (KeyError ''Z'') \<and>
   fst (translate_evaluations (example_translator
     \<lparr>evaluations := [make_evaluation COMPARISON [''A'', ''Z''] (Some GREATER) None,
                      make_evaluation COMPARISON [''A'', ''B''] (Some GREATER) None]\<rparr>)) =
   fst (translate_evaluations (example_translator
     \<lparr>evaluations := [make_evaluation COMPARISON [''A'', ''B''] (Some GREATER) None]\<rparr>)) \<and>
   constraints (fst (snd (translate_evaluations (example_translator
     \<lparr>evaluations := [make_evaluation COMPARISON [''A'', ''Z''] (Some GREATER) None,
                      make_evaluation COMPARISON [''A'', ''B''] (Some GREATER) None]\<rparr>)))) =
   constraints (fst (snd (translate_evaluations (example_translator
     \<lparr>evaluations := [make_evaluation COMPARISON [''A'', ''B''] (Some GREATER) None]\<rparr>)))) \<and>
   map coefficients (fst (translate_evaluations (example_translator
     \<lparr>evaluations := [make_evaluation COMPARISON [''A'', ''Z''] (Some GREATER) None,
                      make_evaluation COMPARISON [''A'', ''B''] (Some GREATER) None]\<rparr>))) =
   [[1, - 1]]"
  by (simp add: translate_evaluations_def translate_body_def extend_or_log_def translator_defs)

section \<open>Properties of the vertex enumeration\<close>

subsection \<open>The constructor\<close>

lemma vstack_Inr: "vstack rows = Inr M \<Longrightarrow> M = rows"
  by (simp add: vstack_def split: if_splits)

lemma get_constraint_matrices_rows:
  assumes "get_constraint_matrices tr = Inr ((A, b, Ae, be), tr', lg)"
  shows "length A = length b"
  using assms
  by (auto simp: get_constraint_matrices_def Let_def split_def
      split: sum.splits if_splits dest!: vstack_Inr)

lemma visualizer_init_fresh:
  assumes "visualizer_init tr = Inr vis"
  shows "priv_vertices vis = None" and "A_eq vis \<noteq> None"
    and "length (A_ineq vis) = length (b_ineq vis)"
  using assms
  by (auto simp: visualizer_init_def Let_def split: sum.splits prod.splits
      dest: get_constraint_matrices_rows)

subsection \<open>One combination\<close>

lemma within_bounds_True:
  "within_bounds bs v idxs = Inr True \<Longrightarrow>
     \<forall>i \<in> set idxs. i < length bs \<and> i < length v \<and> fst (bs ! i) \<le> v ! i \<and> v ! i \<le> snd (bs ! i)"
  by (induction idxs) (auto split: if_splits)

lemma satisfies_all_True:
  assumes "satisfies_all la A b v = Inr True" "length A = length b"
  shows "\<forall>i < length b. length (A ! i) = length v \<and>
           fl_matvec la A v i \<le> slack_bound la (b ! i)"
  using assms
  by (auto simp: satisfies_all_def matvec_def list_all2_conv_all_nth list_all_length
      split: if_splits)

lemma intersection_body_acc:
  "intersection_body la self bs acc x =
     (case intersection_body la self bs [] x of Inl e \<Rightarrow> Inl e | Inr ys \<Rightarrow> Inr (acc @ ys))"
  by (simp add: intersection_body_def split: sum.splits option.splits bool.splits)

lemma intersection_body_accepted:
  "intersection_body la self bs [] x = Inr ys \<Longrightarrow> \<forall>v \<in> set ys. accepted la self bs v"
  by (auto simp: intersection_body_def accepted_def
      split: sum.splits option.splits bool.splits if_splits)

lemma for_loop_collect:
  assumes "\<And>s x. body s x = (case g x of Inl e \<Rightarrow> Inl e | Inr ys \<Rightarrow> Inr (s @ ys))"
    and "for_loop body xs s = Inr r"
  shows "r = s @ concat (map (\<lambda>x. projr (g x)) xs) \<and> (\<forall>x \<in> set xs. \<exists>ys. g x = Inr ys)"
  using assms(2)
proof (induction xs arbitrary: s)
  case Nil
  then show ?case by simp
next
  case (Cons x xs)
  from Cons.prems have step:
    "(case body s x of Inl e \<Rightarrow> Inl e | Inr s' \<Rightarrow> for_loop body xs s') = Inr r"
    by simp
  obtain ys where g: "g x = Inr ys"
    using step assms(1) [of s x] by (cases "g x") simp_all
  then have "body s x = Inr (s @ ys)"
    using assms(1) [of s x] by simp
  with step have rest: "for_loop body xs (s @ ys) = Inr r" by simp
  from Cons.IH [OF rest] g show ?case by simp
qed

lemma intersection_loop:
  assumes "for_loop (intersection_body la self bs) combos [] = Inr cands"
  shows "cands = concat (map (\<lambda>x. projr (intersection_body la self bs [] x)) combos)"
    and "\<forall>x \<in> set combos. \<exists>ys. intersection_body la self bs [] x = Inr ys"
    and "\<forall>v \<in> set cands. accepted la self bs v"
proof -
  have c: "cands = [] @ concat (map (\<lambda>x. projr (intersection_body la self bs [] x)) combos) \<and>
        (\<forall>x \<in> set combos. \<exists>ys. intersection_body la self bs [] x = Inr ys)"
    by (rule for_loop_collect [OF intersection_body_acc assms])
  then show "cands = concat (map (\<lambda>x. projr (intersection_body la self bs [] x)) combos)"
    and ex: "\<forall>x \<in> set combos. \<exists>ys. intersection_body la self bs [] x = Inr ys"
    by simp_all
  show "\<forall>v \<in> set cands. accepted la self bs v"
  proof
    fix v assume "v \<in> set cands"
    with c obtain x where x: "x \<in> set combos"
      and v: "v \<in> set (projr (intersection_body la self bs [] x))"
      by auto
    from ex x obtain ys where "intersection_body la self bs [] x = Inr ys" by blast
    with v intersection_body_accepted show "accepted la self bs v" by fastforce
  qed
qed

subsection \<open>Removal of duplicates\<close>

lemma within_tolerance_allclose:
  assumes "tolerance_covers la" "list_all2 (\<lambda>x y. \<bar>x - y\<bar> < 1 / 10 ^ 8) a b"
  shows "allclose la a b"
  unfolding allclose_def using assms(2)
proof (rule list_all2_mono)
  fix x y :: real
  assume "\<bar>x - y\<bar> < 1 / 10 ^ 8"
  with assms(1) show "isclose la x y" by (simp add: tolerance_covers_def)
qed

lemma exact_tolerance_covers: "tolerance_covers exact_linalg"
proof -
  have "\<bar>x - y\<bar> \<le> 1 / 10 ^ 8 + 1 / 10 ^ 5 * \<bar>y\<bar>" if "\<bar>x - y\<bar> < 1 / 10 ^ 8" for x y :: real
  proof -
    have "0 \<le> 1 / 10 ^ 5 * \<bar>y\<bar>" by simp
    with that show ?thesis by linarith
  qed
  then show ?thesis
    by (simp add: tolerance_covers_def isclose_def exact_linalg_def)
qed

lemma within_tolerance_sym:
  "list_all2 (\<lambda>x y. \<bar>x - y\<bar> < (1::real) / 10 ^ 8) a b \<Longrightarrow>
     list_all2 (\<lambda>x y. \<bar>x - y\<bar> < 1 / 10 ^ 8) b a"
  by (auto simp: list_all2_conv_all_nth abs_minus_commute)

lemma remove_duplicates_subset:
  "set (remove_duplicates la vs u) \<subseteq> set vs \<union> set u"
proof (induction vs arbitrary: u)
  case Nil
  then show ?case by simp
next
  case (Cons v vs)
  from Cons.IH [of u] Cons.IH [of "u @ [v]"] show ?case by auto
qed

lemma remove_duplicates_keeps: "set u \<subseteq> set (remove_duplicates la vs u)"
proof (induction vs arbitrary: u)
  case Nil
  then show ?case by simp
next
  case (Cons v vs)
  have "set u \<subseteq> set (u @ [v])" by auto
  with Cons.IH [of u] Cons.IH [of "u @ [v]"] show ?case by auto
qed

lemma remove_duplicates_separated:
  "sorted_wrt (\<lambda>a b. \<not> allclose la b a) u \<Longrightarrow>
     sorted_wrt (\<lambda>a b. \<not> allclose la b a) (remove_duplicates la vs u)"
proof (induction vs arbitrary: u)
  case Nil
  then show ?case by simp
next
  case (Cons v vs)
  show ?case
  proof (cases "list_ex (\<lambda>existing. allclose la v existing) u")
    case True
    then show ?thesis using Cons by simp
  next
    case False
    then have "sorted_wrt (\<lambda>a b. \<not> allclose la b a) (u @ [v])"
      using Cons.prems by (simp add: sorted_wrt_append list_ex_iff)
    from Cons.IH [OF this] False show ?thesis by simp
  qed
qed

lemma remove_duplicates_represents:
  "\<forall>c \<in> set vs. c \<in> set (remove_duplicates la vs u) \<or>
       (\<exists>r \<in> set (remove_duplicates la vs u). allclose la c r)"
proof (induction vs arbitrary: u)
  case Nil
  then show ?case by simp
next
  case (Cons v vs)
  show ?case
  proof (cases "list_ex (\<lambda>existing. allclose la v existing) u")
    case True
    then obtain r where "r \<in> set u" "allclose la v r" by (auto simp: list_ex_iff)
    then have "\<exists>r \<in> set (remove_duplicates la vs u). allclose la v r"
      using remove_duplicates_keeps [of u la vs] by blast
    with True Cons.IH [of u] show ?thesis by simp
  next
    case False
    have "v \<in> set (remove_duplicates la vs (u @ [v]))"
      using remove_duplicates_keeps [of "u @ [v]" la vs] by auto
    with False Cons.IH [of "u @ [v]"] show ?thesis by simp
  qed
qed

subsection \<open>The whole computation\<close>

lemma enumerate_intersections_Inr:
  assumes "enumerate_intersections la self bounds = Inr (vs, self')"
  shows "\<exists>cands. for_loop (intersection_body la self (default_bounds self bounds))
            (combinations [0 ..< length (b_ineq self)] (n_dimensions self)) [] = Inr cands \<and>
          vs = remove_duplicates la cands [] \<and> self' = self\<lparr>priv_vertices := Some vs\<rparr>"
  using assms
  by (auto simp: enumerate_intersections_def np_array_def Let_def split: sum.splits if_splits)

lemma compute_vertices_cached:
  "priv_vertices self = Some vs \<Longrightarrow> compute_vertices la PYPOMAN self bounds = Inr (vs, self)"
  by (simp add: compute_vertices_def)

lemma compute_vertices_fresh:
  assumes "priv_vertices self = None" "A_eq self \<noteq> None"
  shows "compute_vertices la PYPOMAN self bounds = enumerate_intersections la self bounds"
  using assms by (auto simp: compute_vertices_def)

lemma first_computation:
  assumes "visualizer_init tr = Inr vis" "compute_vertices la PYPOMAN vis bounds = Inr (vs, vis')"
  shows "\<exists>cands. for_loop (intersection_body la vis (default_bounds vis bounds))
            (combinations [0 ..< length (b_ineq vis)] (n_dimensions vis)) [] = Inr cands \<and>
          vs = remove_duplicates la cands [] \<and> vis' = vis\<lparr>priv_vertices := Some vs\<rparr>"
  using assms visualizer_init_fresh [OF assms(1)]
  by (simp add: compute_vertices_fresh enumerate_intersections_Inr)

text \<open>
  Every vertex of the first computation passed the slack test
  \<^verbatim>\<open>A_ineq @ vertex <= b_ineq + 1e-10\<close>, as numpy evaluated it, and the box test of
  that call.
\<close>

lemma returned_vertices_accepted:
  assumes "visualizer_init tr = Inr vis" "compute_vertices la PYPOMAN vis bounds = Inr (vs, vis')"
  shows "\<forall>v \<in> set vs. accepted la vis (default_bounds vis bounds) v"
proof -
  from first_computation [OF assms] obtain cands where
    loop: "for_loop (intersection_body la vis (default_bounds vis bounds))
            (combinations [0 ..< length (b_ineq vis)] (n_dimensions vis)) [] = Inr cands"
    and vs: "vs = remove_duplicates la cands []"
    by blast
  from vs remove_duplicates_subset [of la cands "[]"] have "set vs \<subseteq> set cands" by simp
  with intersection_loop(3) [OF loop] show ?thesis by blast
qed

lemma length_combinations: "length (combinations xs r) = length xs choose r"
  by (induction xs r rule: combinations.induct) simp_all

subsection \<open>The claims\<close>

text \<open>
  C6 (amended). The array computed by the first \<^verbatim>\<open>compute_vertices\<close> of a
  visualizer (the array every later call returns) is deduplicated with
  \<^verbatim>\<open>np.allclose(vertex, existing, atol=1e-8)\<close> as numpy evaluates it: the returned
  vertices are accepted candidates; no returned vertex passes the test against an earlier
  returned one; every accepted candidate is returned or passes the test against a returned
  vertex. For an arithmetic with the property \<open>tolerance_covers\<close>, which float64
  has, it follows that no two returned vertices differ by less than \<open>1e-8\<close> in every
  coordinate.
\<close>

theorem returned_vertices_deduplicated:
  assumes "visualizer_init tr = Inr vis" "compute_vertices la PYPOMAN vis bounds = Inr (vs, vis')"
  shows "\<exists>cands. for_loop (intersection_body la vis (default_bounds vis bounds))
            (combinations [0 ..< length (b_ineq vis)] (n_dimensions vis)) [] = Inr cands \<and>
          set vs \<subseteq> set cands \<and>
          (\<forall>c \<in> set cands. c \<in> set vs \<or> (\<exists>u \<in> set vs. allclose la c u)) \<and>
          (\<forall>i j. i < j \<and> j < length vs \<longrightarrow> \<not> allclose la (vs ! j) (vs ! i)) \<and>
          (tolerance_covers la \<longrightarrow>
             (\<forall>i j. i < j \<and> j < length vs \<longrightarrow>
                \<not> list_all2 (\<lambda>x y. \<bar>x - y\<bar> < 1 / 10 ^ 8) (vs ! j) (vs ! i) \<and>
                \<not> list_all2 (\<lambda>x y. \<bar>x - y\<bar> < 1 / 10 ^ 8) (vs ! i) (vs ! j)))"
proof -
  from first_computation [OF assms] obtain cands where
    loop: "for_loop (intersection_body la vis (default_bounds vis bounds))
            (combinations [0 ..< length (b_ineq vis)] (n_dimensions vis)) [] = Inr cands"
    and vs: "vs = remove_duplicates la cands []"
    by blast
  have sub: "set vs \<subseteq> set cands"
    using vs remove_duplicates_subset [of la cands "[]"] by simp
  have rep: "\<forall>c \<in> set cands. c \<in> set vs \<or> (\<exists>u \<in> set vs. allclose la c u)"
    unfolding vs by (rule remove_duplicates_represents)
  have "sorted_wrt (\<lambda>a b. \<not> allclose la b a) vs"
    unfolding vs by (rule remove_duplicates_separated) simp
  then have sep: "\<not> allclose la (vs ! j) (vs ! i)" if "i < j \<and> j < length vs" for i j
    using that by (simp add: sorted_wrt_iff_nth_less)
  have far: "\<not> list_all2 (\<lambda>x y. \<bar>x - y\<bar> < 1 / 10 ^ 8) (vs ! j) (vs ! i) \<and>
             \<not> list_all2 (\<lambda>x y. \<bar>x - y\<bar> < 1 / 10 ^ 8) (vs ! i) (vs ! j)"
    if "tolerance_covers la" "i < j \<and> j < length vs" for i j
    using sep [OF that(2)] within_tolerance_allclose [OF that(1)] within_tolerance_sym
    by blast
  from loop sub rep sep far show ?thesis by blast
qed

text \<open>
  C7 (amended). \<^verbatim>\<open>compute_vertices\<close> has no bound on the work and no truncation
  flag: its only argument is the optional bounding box. The first call on a visualizer,
  when it returns, has gone through each of the \<open>C(n_constraints, n_dimensions)\<close>
  combinations, and the vertex accepted at any combination is returned or passes the test
  of \<^verbatim>\<open>np.allclose\<close> against a returned vertex. Every later call returns that array
  from the cache, whatever box it is given, and examines no combination.
\<close>

theorem enumeration_is_exhaustive:
  assumes "visualizer_init tr = Inr vis" "compute_vertices la PYPOMAN vis bounds = Inr (vs, vis')"
  shows "length (combinations [0 ..< length (b_ineq vis)] (n_dimensions vis)) =
           length (b_ineq vis) choose n_dimensions vis \<and>
         (\<forall>combo \<in> set (combinations [0 ..< length (b_ineq vis)] (n_dimensions vis)).
            \<forall>v. intersection_body la vis (default_bounds vis bounds) [] combo = Inr [v] \<longrightarrow>
                v \<in> set vs \<or> (\<exists>u \<in> set vs. allclose la v u)) \<and>
         (\<forall>la' PYPOMAN' bounds'.
            compute_vertices la' PYPOMAN' vis' bounds' = Inr (vs, vis'))"
proof (intro conjI ballI allI impI)
  show "length (combinations [0 ..< length (b_ineq vis)] (n_dimensions vis)) =
           length (b_ineq vis) choose n_dimensions vis"
    by (simp add: length_combinations)
next
  fix combo v
  assume combo: "combo \<in> set (combinations [0 ..< length (b_ineq vis)] (n_dimensions vis))"
    and v: "intersection_body la vis (default_bounds vis bounds) [] combo = Inr [v]"
  from first_computation [OF assms] obtain cands where
    loop: "for_loop (intersection_body la vis (default_bounds vis bounds))
            (combinations [0 ..< length (b_ineq vis)] (n_dimensions vis)) [] = Inr cands"
    and vs: "vs = remove_duplicates la cands []"
    by blast
  have "v \<in> set cands"
    unfolding intersection_loop(1) [OF loop] using combo v by force
  then show "v \<in> set vs \<or> (\<exists>u \<in> set vs. allclose la v u)"
    unfolding vs using remove_duplicates_represents by blast
next
  fix la' PYPOMAN' bounds'
  from first_computation [OF assms] have "priv_vertices vis' = Some vs" by auto
  then show "compute_vertices la' PYPOMAN' vis' bounds' = Inr (vs, vis')"
    by (rule compute_vertices_cached)
qed

text \<open>
  C8. In a visualizer built by the constructor \<open>A_eq\<close> is an array, never \<open>None\<close>
  (\<^verbatim>\<open>get_constraint_matrices\<close> returns an array in both branches), so the guard
  \<^verbatim>\<open>PYPOMAN_AVAILABLE and self.A_eq is None\<close> is false whether or not the library is
  installed, \<^verbatim>\<open>compute_vertices\<close> is the enumeration of constraint intersections, and
  \<open>A_eq\<close> is still an array afterwards.
\<close>

theorem library_path_unreachable:
  assumes "visualizer_init tr = Inr vis"
  shows "A_eq vis \<noteq> None \<and> \<not> (PYPOMAN \<noteq> None \<and> A_eq vis = None) \<and>
         compute_vertices la PYPOMAN vis bounds = enumerate_intersections la vis bounds \<and>
         (\<forall>vs vis'. compute_vertices la PYPOMAN vis bounds = Inr (vs, vis') \<longrightarrow> A_eq vis' \<noteq> None)"
proof -
  note fresh = visualizer_init_fresh [OF assms]
  have eq: "compute_vertices la PYPOMAN vis bounds = enumerate_intersections la vis bounds"
    using fresh by (simp add: compute_vertices_fresh)
  have "A_eq vis' \<noteq> None" if "compute_vertices la PYPOMAN vis bounds = Inr (vs, vis')" for vs vis'
    using that enumerate_intersections_Inr [of la vis bounds vs vis'] fresh(2) by (auto simp: eq)
  with fresh(2) eq show ?thesis by blast
qed

text \<open>
  C9. Once a call of \<^verbatim>\<open>compute_vertices\<close> has returned, every later call returns the
  same array and leaves the visualizer as it is, whatever bounds (and whatever numerical
  routines) it is given.
\<close>

theorem cached_vertices_returned:
  assumes "compute_vertices la PYPOMAN vis bounds = Inr (vs, vis')"
  shows "compute_vertices la' PYPOMAN' vis' bounds' = Inr (vs, vis')"
proof -
  have "priv_vertices vis' = Some vs"
    using assms enumerate_intersections_Inr [of la vis bounds vs vis']
    by (auto simp: compute_vertices_def split: option.splits if_splits)
  then show ?thesis by (simp add: compute_vertices_def)
qed

subsection \<open>Evaluation of the concrete systems\<close>

lemmas system_defs =
  with_evaluations_def add_evaluation_def translator_defs
  parse_threshold_evaluation_def threshold_body_def
  translate_evaluations_def translate_body_def extend_or_log_def
  visualizer_init_def get_constraint_matrices_def vstack_def

lemma equality_visualizer_init: "visualizer_init equality_system = Inr equality_visualizer"
  by (simp add: equality_visualizer_def equality_system_def system_defs)

lemma equality_visualizer_fields:
  "A_ineq equality_visualizer = [[1, 0], [0, 1]]" "b_ineq equality_visualizer = [1, 2]"
  "A_eq equality_visualizer = Some [[1, - 1]]" "b_eq equality_visualizer = [0]"
  "n_dimensions equality_visualizer = 2" "priv_vertices equality_visualizer = None"
  by (simp_all add: equality_visualizer_def equality_system_def system_defs)

lemma laplace_small:
  "laplace [[a]] = a" "laplace [[a, b], [c, d]] = a * d - b * c"
  by (simp_all add: drop_col_def upt_rec)

lemma upt_small:
  "[0 ..< 1] = [0]" "[0 ..< 2] = [0, 1]" "[0 ..< 3] = [0, 1, 2]"
  by (simp_all add: upt_rec)

lemma combinations_small:
  "combinations [a, b] 2 = [[a, b]]"
  "combinations [a, b] 1 = [[a], [b]]"
  "combinations [a, b, c] 1 = [[a], [b], [c]]"
  by (simp_all add: eval_nat_numeral)

lemma replicate_small:
  "replicate 1 x = [x]" "replicate 2 x = [x, x]"
  by (simp_all add: eval_nat_numeral)

lemma exact_small:
  "linalg_det exact_linalg [[a]] = Some a"
  "linalg_solve exact_linalg [[a]] [y] = (if a = 0 then None else Some [y / a])"
  "linalg_det exact_linalg [[a, b], [c, d]] = Some (a * d - b * c)"
  "linalg_solve exact_linalg [[a, b], [c, d]] [y, z] =
     (if a * d - b * c = 0 then None
      else Some [(y * d - b * z) / (a * d - b * c), (a * z - y * c) / (a * d - b * c)])"
  by (simp_all add: exact_linalg_def exact_det_def exact_solve_def replace_col_def
      laplace_small del: laplace.simps)

lemma exact_ops:
  "fl_matvec exact_linalg A v i = dot (A ! i) v" "fl_add exact_linalg x y = x + y"
  "fl_sub exact_linalg x y = x - y" "fl_mul exact_linalg x y = x * y"
  "fl_lit exact_linalg x = x"
  by (simp_all add: exact_linalg_def)

lemmas vertex_defs =
  compute_vertices_def enumerate_intersections_def default_bounds_def intersection_body_def
  take_rows_def satisfies_all_def matvec_def slack_bound_def dot_def np_array_def
  allclose_def isclose_def Let_def
  exact_small exact_ops upt_small combinations_small replicate_small

lemma equality_visualizer_compute:
  "compute_vertices exact_linalg None equality_visualizer None =
     Inr ([[1, 2]], equality_visualizer\<lparr>priv_vertices := Some [[1, 2]]\<rparr>)"
  by (simp add: equality_visualizer_fields vertex_defs)

lemma interval_visualizer_init: "visualizer_init interval_system = Inr interval_visualizer"
  by (simp add: interval_visualizer_def interval_system_def system_defs)

lemma interval_visualizer_fields:
  "A_ineq interval_visualizer = [[1], [- 1]]"
  "b_ineq interval_visualizer = [131073 / 131072, - 1]"
  "n_dimensions interval_visualizer = 1" "priv_vertices interval_visualizer = None"
  "A_eq interval_visualizer = Some []"
  by (simp_all add: interval_visualizer_def interval_system_def system_defs)

lemma interval_visualizer_candidates:
  "for_loop (intersection_body exact_linalg interval_visualizer
       (default_bounds interval_visualizer None))
     (combinations [0 ..< length (b_ineq interval_visualizer)] (n_dimensions interval_visualizer)) [] =
   Inr [[131073 / 131072], [1]]"
  by (simp add: interval_visualizer_fields vertex_defs)

lemma interval_visualizer_compute:
  "compute_vertices exact_linalg None interval_visualizer None =
     Inr ([[131073 / 131072]], interval_visualizer\<lparr>priv_vertices := Some [[131073 / 131072]]\<rparr>)"
  by (simp add: interval_visualizer_fields vertex_defs)

lemma limits_visualizer_init: "visualizer_init limits_system = Inr limits_visualizer"
  by (simp add: limits_visualizer_def limits_system_def system_defs)

lemma limits_visualizer_fields:
  "A_ineq limits_visualizer = [[1], [1], [1]]" "b_ineq limits_visualizer = [5, 3, 0]"
  "n_dimensions limits_visualizer = 1" "priv_vertices limits_visualizer = None"
  by (simp_all add: limits_visualizer_def limits_system_def system_defs)

lemma limits_visualizer_compute:
  "compute_vertices exact_linalg None limits_visualizer (Some [(0, 0)]) =
     Inr ([[0]], limits_visualizer\<lparr>priv_vertices := Some [[0]]\<rparr>)"
  by (simp add: limits_visualizer_fields vertex_defs)

lemma limits_visualizer_last:
  "intersection_body exact_linalg limits_visualizer
     (default_bounds limits_visualizer (Some [(0, 0)])) [] [2] = Inr [[0]]"
  by (simp add: limits_visualizer_fields vertex_defs)

lemma segment_visualizer_init: "visualizer_init segment_system = Inr segment_visualizer"
  by (simp add: segment_visualizer_def segment_system_def system_defs)

lemma segment_visualizer_fields:
  "A_ineq segment_visualizer = [[1], [- 1]]" "b_ineq segment_visualizer = [2, - 1]"
  "n_dimensions segment_visualizer = 1" "priv_vertices segment_visualizer = None"
  by (simp_all add: segment_visualizer_def segment_system_def system_defs)

lemma segment_visualizer_compute:
  "compute_vertices exact_linalg None segment_visualizer None =
     Inr ([[2], [1]], segment_visualizer\<lparr>priv_vertices := Some [[2], [1]]\<rparr>)"
  by (simp add: segment_visualizer_fields vertex_defs)

lemmas run_defs =
  compute_vertices_def enumerate_intersections_def default_bounds_def intersection_body_def
  take_rows_def satisfies_all_def matvec_def np_array_def allclose_def Let_def
  upt_small combinations_small replicate_small

subsection \<open>The claims on concrete systems\<close>

text \<open>
  C1 fails on the code. At the system \<open>x\<^sub>A \<le> 1\<close>, \<open>x\<^sub>B \<le> 2\<close>,
  \<open>x\<^sub>A - x\<^sub>B = 0\<close>, for every arithmetic that solves the identity system exactly and
  passes the slack test at the two rows (as float64 does: the operands are small integers),
  \<^verbatim>\<open>compute_vertices\<close> returns the single vertex \<open>(1, 2)\<close>, although the equality
  constraint has \<open>A_eq \<cdot> v - b_eq = -1\<close>: the vertex is not in the polytope
  \<open>{x. A_ineq x \<le> b_ineq, A_eq x = b_eq}\<close> that the module documents.
\<close>

theorem equality_constraint_violated:
  assumes "linalg_det la [[1, 0], [0, 1]] = Some d" "d \<noteq> 0"
    and "linalg_solve la [[1, 0], [0, 1]] [1, 2] = Some [1, 2]"
    and "fl_matvec la [[1, 0], [0, 1]] [1, 2] 0 \<le> slack_bound la 1"
    and "fl_matvec la [[1, 0], [0, 1]] [1, 2] 1 \<le> slack_bound la 2"
  shows "visualizer_init equality_system = Inr equality_visualizer \<and>
         compute_vertices la PYPOMAN equality_visualizer None =
           Inr ([[1, 2]], equality_visualizer\<lparr>priv_vertices := Some [[1, 2]]\<rparr>) \<and>
         A_eq equality_visualizer = Some [[1, - 1]] \<and> b_eq equality_visualizer = [0] \<and>
         dot [1, - 1] [1, 2] = - 1 \<and>
         \<not> \<bar>dot [1, - 1] [1, 2] - 0\<bar> \<le> 1 / 10 ^ 10"
proof -
  have "compute_vertices la PYPOMAN equality_visualizer None =
           Inr ([[1, 2]], equality_visualizer\<lparr>priv_vertices := Some [[1, 2]]\<rparr>)"
    using assms by (simp add: equality_visualizer_fields run_defs)
  then show ?thesis
    by (simp add: equality_visualizer_init equality_visualizer_fields dot_def)
qed

text \<open>The theorem at the exact arithmetic.\<close>

theorem equality_constraint_violated_witness:
  "linalg_det exact_linalg [[1, 0], [0, 1]] = Some 1 \<and> (1 :: real) \<noteq> 0 \<and>
   linalg_solve exact_linalg [[1, 0], [0, 1]] [1, 2] = Some [1, 2] \<and>
   fl_matvec exact_linalg [[1, 0], [0, 1]] [1, 2] 0 \<le> slack_bound exact_linalg 1 \<and>
   fl_matvec exact_linalg [[1, 0], [0, 1]] [1, 2] 1 \<le> slack_bound exact_linalg 2 \<and>
   compute_vertices exact_linalg None equality_visualizer None =
     Inr ([[1, 2]], equality_visualizer\<lparr>priv_vertices := Some [[1, 2]]\<rparr>) \<and>
   A_eq equality_visualizer = Some [[1, - 1]] \<and> b_eq equality_visualizer = [0] \<and>
   dot [1, - 1] [1, 2] = - 1"
proof -
  have h: "linalg_det exact_linalg [[1, 0], [0, 1]] = Some 1" "(1 :: real) \<noteq> 0"
    "linalg_solve exact_linalg [[1, 0], [0, 1]] [1, 2] = Some [1, 2]"
    "fl_matvec exact_linalg [[1, 0], [0, 1]] [1, 2] 0 \<le> slack_bound exact_linalg 1"
    "fl_matvec exact_linalg [[1, 0], [0, 1]] [1, 2] 1 \<le> slack_bound exact_linalg 2"
    by (simp_all add: exact_small exact_ops slack_bound_def dot_def)
  from equality_constraint_violated [OF h, of None] h show ?thesis by simp
qed

text \<open>
  The merge behind the counterexample to C6 does not depend on the exact arithmetic: it
  happens for every arithmetic that solves the two one-row systems exactly, passes the
  four slack tests and finds \<open>1\<close> close to \<open>1 + 2^-17\<close>, as float64 does (all operands
  are floats and no test is near its threshold).
\<close>

lemma interval_merge:
  assumes "linalg_det la [[1]] = Some d1" "d1 \<noteq> 0"
    and "linalg_det la [[- 1]] = Some d2" "d2 \<noteq> 0"
    and "linalg_solve la [[1]] [131073 / 131072] = Some [131073 / 131072]"
    and "linalg_solve la [[- 1]] [- 1] = Some [1]"
    and "fl_matvec la [[1], [- 1]] [131073 / 131072] 0 \<le> slack_bound la (131073 / 131072)"
    and "fl_matvec la [[1], [- 1]] [131073 / 131072] 1 \<le> slack_bound la (- 1)"
    and "fl_matvec la [[1], [- 1]] [1] 0 \<le> slack_bound la (131073 / 131072)"
    and "fl_matvec la [[1], [- 1]] [1] 1 \<le> slack_bound la (- 1)"
    and "isclose la 1 (131073 / 131072)"
  shows "compute_vertices la PYPOMAN interval_visualizer None =
     Inr ([[131073 / 131072]], interval_visualizer\<lparr>priv_vertices := Some [[131073 / 131072]]\<rparr>)"
  using assms by (simp add: interval_visualizer_fields run_defs)

text \<open>
  C6 at the segment from \<open>1\<close> to \<open>2\<close>, where both candidates are returned, and at the
  interval from \<open>1\<close> to \<open>1 + 2^-17\<close>, where the second candidate is represented by the
  first.
\<close>

theorem returned_vertices_deduplicated_witness:
  "visualizer_init segment_system = Inr segment_visualizer \<and>
   compute_vertices exact_linalg None segment_visualizer None =
     Inr ([[2], [1]], segment_visualizer\<lparr>priv_vertices := Some [[2], [1]]\<rparr>) \<and>
   tolerance_covers exact_linalg \<and> (0 :: nat) < 1 \<and> (1 :: nat) < length [[2 :: real], [1]] \<and>
   \<not> allclose exact_linalg [1] [2] \<and>
   \<not> list_all2 (\<lambda>x y. \<bar>x - y\<bar> < 1 / 10 ^ 8) [1 :: real] [2] \<and>
   visualizer_init interval_system = Inr interval_visualizer \<and>
   compute_vertices exact_linalg None interval_visualizer None =
     Inr ([[131073 / 131072]], interval_visualizer\<lparr>priv_vertices := Some [[131073 / 131072]]\<rparr>) \<and>
   (\<exists>u \<in> set [[131073 / 131072]]. allclose exact_linalg [1] u)"
proof -
  from returned_vertices_deduplicated [OF segment_visualizer_init segment_visualizer_compute]
  have sep: "\<forall>i j. i < j \<and> j < length [[2 :: real], [1]] \<longrightarrow>
               \<not> allclose exact_linalg ([[2], [1]] ! j) ([[2], [1]] ! i)"
    and far: "\<forall>i j. i < j \<and> j < length [[2 :: real], [1]] \<longrightarrow>
               \<not> list_all2 (\<lambda>x y. \<bar>x - y\<bar> < 1 / 10 ^ 8) ([[2 :: real], [1]] ! j) ([[2], [1]] ! i)"
    using exact_tolerance_covers by blast+
  from sep [rule_format, of 0 1] have s: "\<not> allclose exact_linalg [1] [2]" by simp
  from far [rule_format, of 0 1]
  have f: "\<not> list_all2 (\<lambda>x y. \<bar>x - y\<bar> < 1 / 10 ^ 8) [1 :: real] [2]" by simp
  from returned_vertices_deduplicated [OF interval_visualizer_init interval_visualizer_compute]
  have "\<forall>c \<in> set [[131073 / 131072], [1]].
          c \<in> set [[131073 / 131072]] \<or> (\<exists>u \<in> set [[131073 / 131072]]. allclose exact_linalg c u)"
    unfolding interval_visualizer_candidates by blast
  then have r: "\<exists>u \<in> set [[131073 / 131072]]. allclose exact_linalg [1] u"
    by simp
  show ?thesis
    using segment_visualizer_init segment_visualizer_compute exact_tolerance_covers s f
      interval_visualizer_init interval_visualizer_compute r
    by simp
qed

text \<open>
  C6 as stated fails at the interval in its last part: the two accepted candidates differ
  by \<open>2^-17\<close>, more than \<open>1e-8\<close>, yet the second is dropped as a duplicate of the first,
  so no returned vertex is within \<open>1e-8\<close> of the accepted vertex \<open>1\<close>.
\<close>

theorem relative_tolerance_counterexample:
  "visualizer_init interval_system = Inr interval_visualizer \<and>
   for_loop (intersection_body exact_linalg interval_visualizer
       (default_bounds interval_visualizer None))
     (combinations [0 ..< length (b_ineq interval_visualizer)] (n_dimensions interval_visualizer)) [] =
     Inr [[131073 / 131072], [1]] \<and>
   compute_vertices exact_linalg None interval_visualizer None =
     Inr ([[131073 / 131072]], interval_visualizer\<lparr>priv_vertices := Some [[131073 / 131072]]\<rparr>) \<and>
   \<not> list_all2 (\<lambda>x y. \<bar>x - y\<bar> < 1 / 10 ^ 8) [1 :: real] [131073 / 131072] \<and>
   \<not> (\<exists>u \<in> set [[131073 / 131072]].
        list_all2 (\<lambda>x y. \<bar>x - y\<bar> < 1 / 10 ^ 8) [1 :: real] u)"
  by (simp add: interval_visualizer_init interval_visualizer_candidates
      interval_visualizer_compute)

text \<open>
  C7 at three upper limits on one variable, with the box \<open>[0, 0]\<close>, followed by a call
  with the default box.
\<close>

theorem enumeration_is_exhaustive_witness:
  "visualizer_init limits_system = Inr limits_visualizer \<and>
   compute_vertices exact_linalg None limits_visualizer (Some [(0, 0)]) =
     Inr ([[0]], limits_visualizer\<lparr>priv_vertices := Some [[0]]\<rparr>) \<and>
   length (combinations [0 ..< length (b_ineq limits_visualizer)] (n_dimensions limits_visualizer)) = 3 \<and>
   [2] \<in> set (combinations [0 ..< length (b_ineq limits_visualizer)] (n_dimensions limits_visualizer)) \<and>
   intersection_body exact_linalg limits_visualizer
     (default_bounds limits_visualizer (Some [(0, 0)])) [] [2] = Inr [[0]] \<and>
   [0] \<in> set [[0 :: real]] \<and>
   compute_vertices exact_linalg None (limits_visualizer\<lparr>priv_vertices := Some [[0]]\<rparr>) None =
     Inr ([[0]], limits_visualizer\<lparr>priv_vertices := Some [[0]]\<rparr>)"
proof -
  have mem: "[2] \<in> set (combinations [0 ..< length (b_ineq limits_visualizer)]
                (n_dimensions limits_visualizer))"
    by (simp add: limits_visualizer_fields upt_small combinations_small)
  note inst = enumeration_is_exhaustive [OF limits_visualizer_init limits_visualizer_compute]
  from inst have len: "length (combinations [0 ..< length (b_ineq limits_visualizer)]
                (n_dimensions limits_visualizer)) = 3"
    by (simp add: limits_visualizer_fields)
  from inst have later:
    "compute_vertices exact_linalg None (limits_visualizer\<lparr>priv_vertices := Some [[0]]\<rparr>) None =
       Inr ([[0]], limits_visualizer\<lparr>priv_vertices := Some [[0]]\<rparr>)"
    by blast
  show ?thesis
    using limits_visualizer_init limits_visualizer_compute len mem limits_visualizer_last later
    by simp
qed

text \<open>
  C7 as stated fails: with the tightest box a caller can pass, the enumeration still
  goes through all three combinations (the vertex returned is found at the last one),
  and the value returned is the complete vertex array with the updated visualizer, without
  a flag.
\<close>

theorem no_truncation_counterexample:
  "compute_vertices exact_linalg None limits_visualizer (Some [(0, 0)]) =
     Inr ([[0]], limits_visualizer\<lparr>priv_vertices := Some [[0]]\<rparr>) \<and>
   combinations [0 ..< length (b_ineq limits_visualizer)] (n_dimensions limits_visualizer) =
     [[0], [1], [2]] \<and>
   intersection_body exact_linalg limits_visualizer
     (default_bounds limits_visualizer (Some [(0, 0)])) [] [0] = Inr [] \<and>
   intersection_body exact_linalg limits_visualizer
     (default_bounds limits_visualizer (Some [(0, 0)])) [] [1] = Inr [] \<and>
   intersection_body exact_linalg limits_visualizer
     (default_bounds limits_visualizer (Some [(0, 0)])) [] [2] = Inr [[0]]"
  by (simp add: limits_visualizer_compute limits_visualizer_last)
    (simp add: limits_visualizer_fields vertex_defs)

text \<open>C8 at the system with an equality constraint, with and without the library.\<close>

theorem library_path_unreachable_witness:
  "visualizer_init equality_system = Inr equality_visualizer \<and>
   A_eq equality_visualizer \<noteq> None \<and>
   compute_vertices exact_linalg (Some (\<lambda>A b. Some [])) equality_visualizer None =
     Inr ([[1, 2]], equality_visualizer\<lparr>priv_vertices := Some [[1, 2]]\<rparr>)"
proof -
  from library_path_unreachable [OF equality_visualizer_init,
      of "Some (\<lambda>A b. Some [])" exact_linalg None]
  have "A_eq equality_visualizer \<noteq> None"
    and "compute_vertices exact_linalg (Some (\<lambda>A b. Some [])) equality_visualizer None =
           enumerate_intersections exact_linalg equality_visualizer None"
    by blast+
  moreover have "enumerate_intersections exact_linalg equality_visualizer None =
      Inr ([[1, 2]], equality_visualizer\<lparr>priv_vertices := Some [[1, 2]]\<rparr>)"
    using equality_visualizer_compute
    by (simp add: compute_vertices_def equality_visualizer_fields)
  ultimately show ?thesis
    using equality_visualizer_init by simp
qed

text \<open>C9: a second call with the default box returns what the call with \<open>[0, 0]\<close> stored.\<close>

theorem cached_vertices_returned_witness:
  "compute_vertices exact_linalg None limits_visualizer (Some [(0, 0)]) =
     Inr ([[0]], limits_visualizer\<lparr>priv_vertices := Some [[0]]\<rparr>) \<and>
   compute_vertices exact_linalg None (limits_visualizer\<lparr>priv_vertices := Some [[0]]\<rparr>) None =
     Inr ([[0]], limits_visualizer\<lparr>priv_vertices := Some [[0]]\<rparr>)"
  using cached_vertices_returned [OF limits_visualizer_compute, of exact_linalg None None]
    limits_visualizer_compute
  by simp

end
